theory Spec2Isabelle
  imports Main
begin

section \<open>Values and calls of the two wrapped libraries\<close>

text \<open>
  The code is orchestration over a sandboxed-runtime SDK and a terminal widget. The model
  keeps the program's own control flow and state, and records every call into a library
  as an event of a chronological trace. What a library call returns (a value or a thrown
  error) is not decided by this code, so it is a parameter of each function: an
  environment record.

  The functions are asynchronous: between two awaits a function runs alone, and while
  an awaited promise is pending anything else may run (another call of the same function,
  a listener, the cleanup of the effect) and change the store and the variables of the
  component. What happens to the state during each await is a parameter as well. The
  trace of a call records the calls that this call makes, not those of what runs
  meanwhile.

  Every awaited promise settles: it resolves with a value or rejects with an error.
  Awaited calls and \<^verbatim>\<open>JSON.parse\<close> may throw, and so does a method call on null. Calls
  on an object at hand whose result is not awaited (registering a listener, writing to a
  terminal widget, \<^verbatim>\<open>pipeTo\<close>, \<^verbatim>\<open>kill\<close>, \<^verbatim>\<open>resize\<close>, \<^verbatim>\<open>fs.rm\<close>, the console) are taken
  not to throw.
\<close>

type_synonym container = nat
type_synonym process = nat
type_synonym file_data = string

datatype js_error = JsError string

text \<open>The options object of \<^verbatim>\<open>spawn\<close>: a terminal size or a working directory.\<close>

datatype spawn_options = TerminalSize "nat option" "nat option" | Cwd string

text \<open>
  The two writable streams the code builds: \<^verbatim>\<open>write(data) { terminal?.write(data) }\<close> in
  the panel, over the component's variable, and \<^verbatim>\<open>write(data) { terminal.write(data) }\<close>
  in \<^verbatim>\<open>executeAutoCommands\<close>, over its parameter.
\<close>

datatype sink = WriteToTerminalVariable | WriteToTerminal

text \<open>
  The lines written to the terminal are ANSI-coloured texts outside ASCII; each is named
  by its role, with the values interpolated into it.
\<close>

datatype description = InstallingDependencies | StartingDevServer

datatype message =
    WaitingForDirectory
  | DirectoryReady
  | DirectoryNotFound
  | AutoStartBegins
  | Describe description
  | CommandLine string "string list"
  | CommandFailed int
  | CommandDone
  | ServiceStarted
  | AutoStartComplete
  | AutoStartFailed js_error

datatype event =
    GetItem string
  | ConsoleLog string
  | ConsoleError js_error
  | WebContainerBoot
  | JsonParse string
  | WriteDirByLocal file_data "container option"
  | On container string
  | SetInstance "container option" bool
  | SetUrl string
  | Import string
  | New string
  | LoadAddon string
  | TerminalOpen
  | Fit
  | Spawn container string "string list" spawn_options
  | AddWindowListener string
  | PipeTo process sink
  | GetWriter process
  | OnData process
  | TermWrite string
  | TermWriteln message
  | InputWrite process string
  | Resize process "nat option" "nat option"
  | FsRm container string bool
  | Kill process
  | Readdir container string
  | SetTimeout nat
  | AwaitExit process

section \<open>The store\<close>

text \<open>The interface \<^verbatim>\<open>WebContainerState\<close>, and the world it lives in.\<close>

record WebContainerState =
  webContainerInstance :: "container option"
  isInitialized :: bool
  url :: string

record world = WebContainerState +
  trace :: "event list"

text \<open>An action runs on a state and returns normally (\<open>Inr\<close>) or throws (\<open>Inl\<close>).\<close>

type_synonym ('s, 'a) act = "'s \<Rightarrow> (js_error + 'a) \<times> 's"

definition ret :: "'a \<Rightarrow> ('s, 'a) act" where
  "ret x s = (Inr x, s)"

definition throw :: "js_error \<Rightarrow> ('s, 'a) act" where
  "throw err s = (Inl err, s)"

definition andThen :: "('s, 'a) act \<Rightarrow> ('a \<Rightarrow> ('s, 'b) act) \<Rightarrow> ('s, 'b) act" where
  "andThen m f s = (case m s of (Inl err, s') \<Rightarrow> (Inl err, s') | (Inr x, s') \<Rightarrow> f x s')"

definition tryCatch :: "('s, 'a) act \<Rightarrow> (js_error \<Rightarrow> ('s, 'a) act) \<Rightarrow> ('s, 'a) act" where
  "tryCatch m h s = (case m s of (Inl err, s') \<Rightarrow> h err s' | (Inr x, s') \<Rightarrow> (Inr x, s'))"

definition getState :: "('s, 's) act" where
  "getState s = (Inr s, s)"

definition modify :: "('s \<Rightarrow> 's) \<Rightarrow> ('s, unit) act" where
  "modify f s = (Inr (), f s)"

text \<open>
  A call that cannot throw, and a synchronous call that returns or throws (\<^verbatim>\<open>JSON.parse\<close>):
  nothing else runs during either.
\<close>

definition emit :: "event \<Rightarrow> ('w world_scheme, unit) act" where
  "emit ev w = (Inr (), w\<lparr>trace := trace w @ [ev]\<rparr>)"

definition sync :: "event \<Rightarrow> js_error + 'a \<Rightarrow> ('w world_scheme, 'a) act" where
  "sync ev outcome w = (outcome, w\<lparr>trace := trace w @ [ev]\<rparr>)"

text \<open>
  An awaited call. The outside world gives its outcome and, by \<open>meanwhile\<close>, what has
  become of the state when the promise settles: whatever ran while it was pending has
  changed the state, and has left the trace of this call alone.
\<close>

record 's outside =
  meanwhile :: "event \<Rightarrow> 's \<Rightarrow> 's"

definition await ::
  "('w world_scheme, 'x) outside_scheme \<Rightarrow> event \<Rightarrow> js_error + 'a \<Rightarrow> ('w world_scheme, 'a) act" where
  "await e ev outcome w = (outcome, (meanwhile e ev w)\<lparr>trace := trace w @ [ev]\<rparr>)"

text \<open>Nothing else runs during the awaits of a call.\<close>

definition undisturbed :: "('s, 'x) outside_scheme \<Rightarrow> bool" where
  "undisturbed e \<longleftrightarrow> (\<forall>ev w. meanwhile e ev w = w)"

text \<open>
  What \<^verbatim>\<open>initWebContainer\<close> takes from outside: the cache lookup \<^verbatim>\<open>localforage.getItem\<close>
  (\<open>None\<close> is a falsy result), \<^verbatim>\<open>WebContainer.boot\<close>, the \<^verbatim>\<open>projectFileData\<close> that
  \<^verbatim>\<open>JSON.parse\<close> finds in the cached text, and the two imports of \<^verbatim>\<open>@/utils\<close>, which are
  not part of the sources at hand: the constant \<^verbatim>\<open>curDirectory\<close> (\<open>None\<close> when falsy) and
  the helper \<^verbatim>\<open>writeDirByLocal\<close>.
\<close>

record 's store_env = "'s outside" +
  getItem :: "string \<Rightarrow> js_error + string option"
  boot :: "js_error + container"
  parse :: "string \<Rightarrow> js_error + file_data"
  curDirectory :: "file_data option"
  writeDirByLocal :: "file_data \<Rightarrow> container option \<Rightarrow> js_error + unit"

text \<open>\<^verbatim>\<open>set({ webContainerInstance, isInitialized })\<close> and \<^verbatim>\<open>set({ url })\<close>.\<close>

definition setInstance :: "container option \<Rightarrow> bool \<Rightarrow> ('w world_scheme, unit) act" where
  "setInstance inst b =
     andThen (emit (SetInstance inst b)) (\<lambda>_.
     modify (\<lambda>w. w\<lparr>webContainerInstance := inst, isInitialized := b\<rparr>))"

definition setUrl :: "string \<Rightarrow> ('w world_scheme, unit) act" where
  "setUrl u = andThen (emit (SetUrl u)) (\<lambda>_. modify (\<lambda>w. w\<lparr>url := u\<rparr>))"

definition setInitialized :: "bool \<Rightarrow> ('w world_scheme, unit) act" where
  "setInitialized b = modify (\<lambda>w. w\<lparr>isInitialized := b\<rparr>)"

text \<open>\<^verbatim>\<open>instance?.on('server-ready', ...)\<close>: nothing is registered on a null instance.\<close>

definition onServerReady :: "container option \<Rightarrow> ('w world_scheme, unit) act" where
  "onServerReady inst = (case inst of None \<Rightarrow> ret () | Some c \<Rightarrow> emit (On c ''server-ready''))"

text \<open>
  The listener both branches register, \<^verbatim>\<open>(port, url) => { console.log(label, port, url);
  set({ url }) }\<close>, with the label \<^verbatim>\<open>'server-ready'\<close> or \<^verbatim>\<open>'server-ready11'\<close>.
\<close>

definition serverReady :: "string \<Rightarrow> nat \<Rightarrow> string \<Rightarrow> ('w world_scheme, unit) act" where
  "serverReady label port u = andThen (emit (ConsoleLog label)) (\<lambda>_. setUrl u)"

definition initWebContainer ::
  "'w world_scheme store_env \<Rightarrow> string \<Rightarrow> ('w world_scheme, unit) act" where
  "initWebContainer e projectId =
     andThen getState (\<lambda>s.
     andThen (await e (GetItem projectId) (getItem e projectId)) (\<lambda>projectInfo.
     andThen (emit (ConsoleLog ''projectInfo'')) (\<lambda>_.
     if \<not> isInitialized s \<and> webContainerInstance s = None then
       andThen (await e WebContainerBoot (boot e)) (\<lambda>newWebContainerInstance.
       andThen (emit (ConsoleLog ''newWebContainerInstance'')) (\<lambda>_.
       andThen (case projectInfo of
                  None \<Rightarrow> ret ()
                | Some info \<Rightarrow>
                    andThen (sync (JsonParse info) (parse e info)) (\<lambda>projectFileData.
                    andThen (emit (ConsoleLog ''projectFileData'')) (\<lambda>_.
                    await e (WriteDirByLocal projectFileData (Some newWebContainerInstance))
                      (writeDirByLocal e projectFileData (Some newWebContainerInstance))))) (\<lambda>_.
       andThen (case curDirectory e of
                  None \<Rightarrow> ret ()
                | Some dir \<Rightarrow>
                    andThen (emit (ConsoleLog ''curDirectory'')) (\<lambda>_.
                    await e (WriteDirByLocal dir (Some newWebContainerInstance))
                      (writeDirByLocal e dir (Some newWebContainerInstance)))) (\<lambda>_.
       andThen (onServerReady (Some newWebContainerInstance)) (\<lambda>_.
       setInstance (Some newWebContainerInstance) True)))))
     else
       andThen (case projectInfo of
                  None \<Rightarrow> ret ()
                | Some info \<Rightarrow>
                    andThen (sync (JsonParse info) (parse e info)) (\<lambda>projectFileData.
                    andThen (emit (ConsoleLog ''projectFileData1'')) (\<lambda>_.
                    await e (WriteDirByLocal projectFileData (webContainerInstance s))
                      (writeDirByLocal e projectFileData (webContainerInstance s))))) (\<lambda>_.
       andThen (case curDirectory e of
                  None \<Rightarrow> ret ()
                | Some dir \<Rightarrow>
                    andThen (emit (ConsoleLog ''curDirectory1'')) (\<lambda>_.
                    await e (WriteDirByLocal dir (webContainerInstance s))
                      (writeDirByLocal e dir (webContainerInstance s)))) (\<lambda>_.
       andThen (onServerReady (webContainerInstance s)) (\<lambda>_.
       setInstance (webContainerInstance s) True))))))"

text \<open>
  Calls each awaited before the next one is made, each with the outside world of its
  moment: the results of the calls and the store after the last. Calls made without
  awaiting the one before overlap instead: the later call then runs during an await of
  the earlier one, as part of its \<open>meanwhile\<close>.
\<close>

fun awaitedCalls ::
  "('w world_scheme store_env \<times> string) list \<Rightarrow> 'w world_scheme \<Rightarrow>
     (js_error + unit) list \<times> 'w world_scheme" where
  "awaitedCalls [] w = ([], w)"
| "awaitedCalls ((e, projectId) # cs) w =
     (case initWebContainer e projectId w of
        (r, w') \<Rightarrow> (case awaitedCalls cs w' of (rs, w'') \<Rightarrow> (r # rs, w'')))"

definition initialStore :: world where
  "initialStore = \<lparr>webContainerInstance = None, isInitialized = False, url = [], trace = []\<rparr>"


section \<open>The terminal panel\<close>

text \<open>
  The component's variables: the DOM reference \<^verbatim>\<open>terminalRef\<close> (whether its \<^verbatim>\<open>current\<close> is
  mounted), \<^verbatim>\<open>terminal\<close> (the widget with its size, or null), \<^verbatim>\<open>fitAddon\<close> (created, or
  loaded into the terminal) and \<^verbatim>\<open>shell.current\<close>. The panel reads the store, so its state
  extends the world of the store. The two other addons are created and loaded, and never
  used again: they appear in the trace only.
\<close>

record xterm =
  cols :: nat
  rows :: nat

datatype addon = Created | Loaded

record panel = world +
  terminalRef :: bool
  terminal :: "xterm option"
  fitAddon :: "addon option"
  shell :: "process option"

text \<open>
  What the panel takes from outside: the dynamic imports, the size of a new terminal (the
  options name none), the size the fit addon computes from the DOM container (\<open>None\<close> when
  it finds none), \<^verbatim>\<open>spawn\<close>, the attempts of \<^verbatim>\<open>fs.readdir\<close> by their number, and the
  \<^verbatim>\<open>exit\<close> promise of a process.
\<close>

record 's panel_env = "'s outside" +
  importModule :: "string \<Rightarrow> js_error + unit"
  defaultSize :: xterm
  proposeDimensions :: "(nat \<times> nat) option"
  spawn :: "string \<Rightarrow> string list \<Rightarrow> spawn_options \<Rightarrow> js_error + process"
  readdir :: "nat \<Rightarrow> js_error + unit"
  exit :: "process \<Rightarrow> js_error + int"

subsection \<open>\<^verbatim>\<open>executeAutoCommands\<close>\<close>

definition maxRetries :: nat where
  "maxRetries = 50"

definition retryInterval :: nat where
  "retryInterval = 200"

text \<open>
  \<^verbatim>\<open>terminal.writeln(...)\<close> on the parameter \<^verbatim>\<open>terminal\<close>, which has the type \<^verbatim>\<open>any\<close>: a
  line on the terminal passed, or a \<^verbatim>\<open>TypeError\<close> when null was passed.
\<close>

definition writeln :: "xterm option \<Rightarrow> message \<Rightarrow> ('w world_scheme, unit) act" where
  "writeln t msg =
     (case t of None \<Rightarrow> throw (JsError ''TypeError'') | Some tm \<Rightarrow> emit (TermWriteln msg))"

text \<open>
  The loop \<^verbatim>\<open>for (let i = 0; i < maxRetries; i++)\<close> from its counter \<open>i\<close> on; it returns
  \<^verbatim>\<open>reactDirExists\<close>. The inner \<^verbatim>\<open>try\<close> holds the read, the assignment, the line written
  and the \<^verbatim>\<open>break\<close>; its \<^verbatim>\<open>catch\<close> logs and awaits the timeout.
\<close>

function waitForReactDir ::
  "'w world_scheme panel_env \<Rightarrow> container \<Rightarrow> xterm option \<Rightarrow> nat \<Rightarrow> ('w world_scheme, bool) act" where
  "waitForReactDir e wc t i =
     (if i < maxRetries then
        andThen
          (tryCatch
             (andThen (await e (Readdir wc ''/react'') (readdir e i)) (\<lambda>_.
              andThen (writeln t DirectoryReady) (\<lambda>_.
              ret True)))
             (\<lambda>error.
              andThen (emit (ConsoleLog ''Directory does not exist, retrying...'')) (\<lambda>_.
              andThen (await e (SetTimeout retryInterval) (Inr ())) (\<lambda>_.
              ret False))))
          (\<lambda>reactDirExists.
           if reactDirExists then ret True else waitForReactDir e wc t (Suc i))
      else ret False)"
  by pat_completeness auto
termination
  by (relation "measure (\<lambda>(e, wc, t, i). maxRetries - i)") auto

declare waitForReactDir.simps [simp del]

record command =
  command :: string
  args :: "string list"
  waitForExit :: bool
  description :: description

definition commands :: "command list" where
  "commands =
     [\<lparr>command = ''pnpm'', args = [''install''], waitForExit = True,
       description = InstallingDependencies\<rparr>,
      \<lparr>command = ''pnpm'', args = [''dev''], waitForExit = False,
       description = StartingDevServer\<rparr>]"

text \<open>
  The loop over the commands. It returns \<open>False\<close> where the source leaves the whole
  function by \<^verbatim>\<open>return\<close>, and \<open>True\<close> when the list is done.
\<close>

fun runCommands ::
  "'w world_scheme panel_env \<Rightarrow> container \<Rightarrow> xterm option \<Rightarrow> command list \<Rightarrow>
     ('w world_scheme, bool) act" where
  "runCommands e wc t [] = ret True"
| "runCommands e wc t (c # cs) =
     andThen (writeln t (Describe (description c))) (\<lambda>_.
     andThen (writeln t (CommandLine (command c) (args c))) (\<lambda>_.
     andThen (await e (Spawn wc (command c) (args c) (Cwd ''/react''))
                (spawn e (command c) (args c) (Cwd ''/react''))) (\<lambda>process.
     andThen (emit (PipeTo process WriteToTerminal)) (\<lambda>_.
     if waitForExit c then
       andThen (await e (AwaitExit process) (exit e process)) (\<lambda>exitCode.
       if exitCode \<noteq> 0 then
         andThen (writeln t (CommandFailed exitCode)) (\<lambda>_. ret False)
       else
         andThen (writeln t CommandDone) (\<lambda>_. runCommands e wc t cs))
     else
       andThen (writeln t ServiceStarted) (\<lambda>_. runCommands e wc t cs)))))"

text \<open>
  \<^verbatim>\<open>executeAutoCommands(webContainerInstance, terminal)\<close>. The handler of the outer
  \<^verbatim>\<open>catch\<close> writes to the same \<^verbatim>\<open>terminal\<close>: what it throws leaves the function.
\<close>

definition executeAutoCommands ::
  "'w world_scheme panel_env \<Rightarrow> container \<Rightarrow> xterm option \<Rightarrow> ('w world_scheme, unit) act" where
  "executeAutoCommands e wc t =
     tryCatch
       (andThen (writeln t WaitingForDirectory) (\<lambda>_.
        andThen (waitForReactDir e wc t 0) (\<lambda>reactDirExists.
        if \<not> reactDirExists then writeln t DirectoryNotFound
        else
          andThen (writeln t AutoStartBegins) (\<lambda>_.
          andThen (runCommands e wc t commands) (\<lambda>finished.
          if finished then writeln t AutoStartComplete else ret ())))))
       (\<lambda>error.
        andThen (emit (ConsoleError error)) (\<lambda>_.
        writeln t (AutoStartFailed error)))"

subsection \<open>Resizing\<close>

text \<open>
  \<^verbatim>\<open>fitAddon.fit()\<close>: an addon loaded into a terminal gives it the size computed from the
  container, when there is one; otherwise nothing changes.
\<close>

definition refit :: "'s panel_env \<Rightarrow> 'p panel_scheme \<Rightarrow> 'p panel_scheme" where
  "refit e p =
     (if fitAddon p = Some Loaded then
        (case terminal p of
           None \<Rightarrow> p
         | Some t \<Rightarrow>
             (case proposeDimensions e of
                None \<Rightarrow> p
              | Some (c, r) \<Rightarrow> p\<lparr>terminal := Some (t\<lparr>cols := c, rows := r\<rparr>)\<rparr>))
      else p)"

definition fit :: "'s panel_env \<Rightarrow> ('p panel_scheme, unit) act" where
  "fit e = andThen (emit Fit) (\<lambda>_. modify (refit e))"




subsection \<open>The effect and its cleanup\<close>

text \<open>
  The effect, its cleanup and \<^verbatim>\<open>terminalResize\<close> depend on \<^verbatim>\<open>webContainerInstance\<close> alone, so
  they are created in the same render and close over the same variables: the state below
  is that of one such render, and \<open>inst\<close> is the instance it closed over. The cleanup
  can run while \<^verbatim>\<open>init\<close> awaits.

  The body of \<^verbatim>\<open>init\<close>. Where the source reads \<^verbatim>\<open>shell.current\<close> right after assigning it,
  with no await between, the model uses the process assigned, \<open>sh\<close>. The optional chains
  skip their call when the terminal variable is null, and \<^verbatim>\<open>executeAutoCommands\<close> is passed
  what the variable holds. The copy of the panel that comes with the store's source file
  is this one without the call of \<^verbatim>\<open>executeAutoCommands\<close>.
\<close>

definition init ::
  "'p panel_scheme panel_env \<Rightarrow> container option \<Rightarrow> ('p panel_scheme, unit) act" where
  "init e inst =
     andThen (await e (Import ''xterm'') (importModule e ''xterm'')) (\<lambda>_.
     andThen (await e (Import ''xterm-addon-fit'') (importModule e ''xterm-addon-fit'')) (\<lambda>_.
     andThen (await e (Import ''xterm-addon-web-links'')
                (importModule e ''xterm-addon-web-links'')) (\<lambda>_.
     andThen (await e (Import ''xterm-addon-webgl'') (importModule e ''xterm-addon-webgl'')) (\<lambda>_.
     andThen (emit (New ''FitAddon'')) (\<lambda>_.
     andThen (modify (\<lambda>p. p\<lparr>fitAddon := Some Created\<rparr>)) (\<lambda>_.
     andThen (emit (New ''WebLinksAddon'')) (\<lambda>_.
     andThen (emit (New ''WebglAddon'')) (\<lambda>_.
     case inst of
       None \<Rightarrow> ret ()
     | Some wc \<Rightarrow>
         andThen getState (\<lambda>p.
         if terminalRef p \<and> terminal p = None then
           andThen (emit (New ''Terminal'')) (\<lambda>_.
           andThen (modify (\<lambda>p. p\<lparr>terminal := Some (defaultSize e)\<rparr>)) (\<lambda>_.
           andThen (emit (LoadAddon ''FitAddon'')) (\<lambda>_.
           andThen (modify (\<lambda>p. p\<lparr>fitAddon := Some Loaded\<rparr>)) (\<lambda>_.
           andThen (emit (LoadAddon ''WebLinksAddon'')) (\<lambda>_.
           andThen (emit (LoadAddon ''WebglAddon'')) (\<lambda>_.
           andThen (emit TerminalOpen) (\<lambda>_.
           andThen (fit e) (\<lambda>_.
           andThen getState (\<lambda>p.
           andThen (await e (Spawn wc ''jsh'' []
                               (TerminalSize (map_option cols (terminal p))
                                  (map_option rows (terminal p))))
                      (spawn e ''jsh'' []
                         (TerminalSize (map_option cols (terminal p))
                            (map_option rows (terminal p))))) (\<lambda>sh.
           andThen (modify (\<lambda>p. p\<lparr>shell := Some sh\<rparr>)) (\<lambda>_.
           andThen (emit (AddWindowListener ''resize'')) (\<lambda>_.
           andThen (emit (PipeTo sh WriteToTerminalVariable)) (\<lambda>_.
           andThen (emit (GetWriter sh)) (\<lambda>_.
           andThen getState (\<lambda>p.
           andThen (case terminal p of
                      None \<Rightarrow> ret ()
                    | Some t \<Rightarrow> emit (OnData sh)) (\<lambda>_.
           executeAutoCommands e wc (terminal p)))))))))))))))))
         else ret ())))))))))"

definition cleanup :: "container option \<Rightarrow> ('p panel_scheme, unit) act" where
  "cleanup inst =
     andThen (case inst of None \<Rightarrow> ret () | Some wc \<Rightarrow> emit (FsRm wc ''/'' True)) (\<lambda>_.
     andThen getState (\<lambda>p.
     andThen (case shell p of None \<Rightarrow> ret () | Some sh \<Rightarrow> emit (Kill sh)) (\<lambda>_.
     andThen (setUrl []) (\<lambda>_.
     modify (\<lambda>p. p\<lparr>terminal := None\<rparr>)))))"

subsection \<open>The callbacks the panel hands to the libraries\<close>

text \<open>
  \<^verbatim>\<open>write(data) { terminal?.write(data) }\<close> and \<^verbatim>\<open>write(data) { terminal.write(data) }\<close>,
  by the sink that names them, and \<^verbatim>\<open>(data) => { input.write(data) }\<close>, where \<^verbatim>\<open>input\<close> is
  the writer of the shell's input.
\<close>

fun sinkWrite :: "sink \<Rightarrow> string \<Rightarrow> ('p panel_scheme, unit) act" where
  "sinkWrite WriteToTerminalVariable data =
     andThen getState (\<lambda>p. case terminal p of None \<Rightarrow> ret () | Some t \<Rightarrow> emit (TermWrite data))"
| "sinkWrite WriteToTerminal data = emit (TermWrite data)"

definition onData :: "process \<Rightarrow> string \<Rightarrow> ('p panel_scheme, unit) act" where
  "onData sh data = emit (InputWrite sh data)"

text \<open>
  The libraries call what was registered: a chunk on a process's output goes to the sinks
  its output was piped to, a data event of the terminal to the listeners of \<^verbatim>\<open>onData\<close>.
\<close>

fun forEach :: "'a list \<Rightarrow> ('a \<Rightarrow> ('s, unit) act) \<Rightarrow> ('s, unit) act" where
  "forEach [] f = ret ()"
| "forEach (x # xs) f = andThen (f x) (\<lambda>_. forEach xs f)"

fun pipedSinks :: "process \<Rightarrow> event list \<Rightarrow> sink list" where
  "pipedSinks proc [] = []"
| "pipedSinks proc (PipeTo q s # t) = (if q = proc then s # pipedSinks proc t else pipedSinks proc t)"
| "pipedSinks proc (_ # t) = pipedSinks proc t"

fun dataListeners :: "event list \<Rightarrow> process list" where
  "dataListeners [] = []"
| "dataListeners (OnData sh # t) = sh # dataListeners t"
| "dataListeners (_ # t) = dataListeners t"

definition outputChunk :: "process \<Rightarrow> string \<Rightarrow> ('p panel_scheme, unit) act" where
  "outputChunk proc data =
     andThen getState (\<lambda>p. forEach (pipedSinks proc (trace p)) (\<lambda>s. sinkWrite s data))"

definition dataEvent :: "string \<Rightarrow> ('p panel_scheme, unit) act" where
  "dataEvent data =
     andThen getState (\<lambda>p. forEach (dataListeners (trace p)) (\<lambda>sh. onData sh data))"

section \<open>Reading a trace\<close>

text \<open>The calls an action makes from a state: what it appends to the trace.\<close>

definition calls :: "('w world_scheme, 'a) act \<Rightarrow> 'w world_scheme \<Rightarrow> event list" where
  "calls m w = drop (length (trace w)) (trace (snd (m w)))"

definition completed :: "js_error + 'a \<Rightarrow> bool" where
  "completed r = (case r of Inl _ \<Rightarrow> False | Inr _ \<Rightarrow> True)"

text \<open>The listeners of \<^verbatim>\<open>'server-ready'\<close> registered in a trace, on any instance.\<close>

fun isServerReadyListener :: "event \<Rightarrow> bool" where
  "isServerReadyListener (On c name) = (name = ''server-ready'')"
| "isServerReadyListener _ = False"

definition serverReadyListeners :: "event list \<Rightarrow> nat" where
  "serverReadyListeners t = length (filter isServerReadyListener t)"

text \<open>The attempts to read the directory, and the time spent in timeouts (in ms).\<close>

fun isReaddir :: "event \<Rightarrow> bool" where
  "isReaddir (Readdir wc path) = True"
| "isReaddir _ = False"

definition attempts :: "event list \<Rightarrow> nat" where
  "attempts t = length (filter isReaddir t)"

fun delay :: "event \<Rightarrow> nat" where
  "delay (SetTimeout ms) = ms"
| "delay _ = 0"

definition waited :: "event list \<Rightarrow> nat" where
  "waited t = sum_list (map delay t)"

text \<open>The processes started and the exits awaited, in their order.\<close>

fun isProcessCall :: "event \<Rightarrow> bool" where
  "isProcessCall (Spawn wc cmd as opts) = True"
| "isProcessCall (AwaitExit proc) = True"
| "isProcessCall _ = False"

definition processCalls :: "event list \<Rightarrow> event list" where
  "processCalls t = filter isProcessCall t"

text \<open>
  One failed round of the wait, and the first attempt from \<open>i\<close> on, below \<open>maxRetries\<close>,
  that finds the directory.
\<close>

definition retryRound :: "container \<Rightarrow> event list" where
  "retryRound wc =
     [Readdir wc ''/react'', ConsoleLog ''Directory does not exist, retrying...'',
      SetTimeout retryInterval]"

definition firstReady :: "'s panel_env \<Rightarrow> nat \<Rightarrow> nat option" where
  "firstReady e i = find (\<lambda>j. completed (readdir e j)) [i..<maxRetries]"

text \<open>
  The trace of \<^verbatim>\<open>executeAutoCommands\<close> in closed form, proved below to be what the function
  appends: the command loop over the two commands with the handler of the outer \<^verbatim>\<open>catch\<close>,
  after the rounds of the wait.
\<close>

definition caught :: "js_error \<Rightarrow> event list" where
  "caught err = [ConsoleError err, TermWriteln (AutoStartFailed err)]"

definition commandCalls :: "'s panel_env \<Rightarrow> container \<Rightarrow> event list" where
  "commandCalls e wc =
     [TermWriteln (Describe InstallingDependencies),
      TermWriteln (CommandLine ''pnpm'' [''install'']),
      Spawn wc ''pnpm'' [''install''] (Cwd ''/react'')] @
     (case spawn e ''pnpm'' [''install''] (Cwd ''/react'') of
        Inl err \<Rightarrow> caught err
      | Inr p1 \<Rightarrow>
          [PipeTo p1 WriteToTerminal, AwaitExit p1] @
          (case exit e p1 of
             Inl err \<Rightarrow> caught err
           | Inr exitCode \<Rightarrow>
               if exitCode \<noteq> 0 then [TermWriteln (CommandFailed exitCode)]
               else
                 [TermWriteln CommandDone,
                  TermWriteln (Describe StartingDevServer),
                  TermWriteln (CommandLine ''pnpm'' [''dev'']),
                  Spawn wc ''pnpm'' [''dev''] (Cwd ''/react'')] @
                 (case spawn e ''pnpm'' [''dev''] (Cwd ''/react'') of
                    Inl err \<Rightarrow> caught err
                  | Inr p2 \<Rightarrow>
                      [PipeTo p2 WriteToTerminal, TermWriteln ServiceStarted,
                       TermWriteln AutoStartComplete])))"

definition autoCalls :: "'s panel_env \<Rightarrow> container \<Rightarrow> event list" where
  "autoCalls e wc =
     TermWriteln WaitingForDirectory #
     (case firstReady e 0 of
        None \<Rightarrow>
          concat (replicate maxRetries (retryRound wc)) @ [TermWriteln DirectoryNotFound]
      | Some k \<Rightarrow>
          concat (replicate k (retryRound wc)) @
          [Readdir wc ''/react'', TermWriteln DirectoryReady, TermWriteln AutoStartBegins] @
          commandCalls e wc)"

text \<open>What follows the first process call of a trace, and the error lines of a trace.\<close>

definition afterFirstProcessCall :: "event list \<Rightarrow> event list" where
  "afterFirstProcessCall t = dropWhile (\<lambda>ev. \<not> isProcessCall ev) t"

fun isErrorLine :: "event \<Rightarrow> bool" where
  "isErrorLine (TermWriteln DirectoryNotFound) = True"
| "isErrorLine (TermWriteln (CommandFailed exitCode)) = True"
| "isErrorLine (TermWriteln (AutoStartFailed err)) = True"
| "isErrorLine _ = False"

definition errorLines :: "event list \<Rightarrow> event list" where
  "errorLines t = filter isErrorLine t"

text \<open>
  The errors given to \<^verbatim>\<open>console.error\<close> in a trace, the number of retries logged, and the
  first error the command sequence raises in an environment: a spawn or an awaited exit
  that rejects.
\<close>

fun loggedError :: "event \<Rightarrow> js_error list" where
  "loggedError (ConsoleError err) = [err]"
| "loggedError _ = []"

definition loggedErrors :: "event list \<Rightarrow> js_error list" where
  "loggedErrors t = concat (map loggedError t)"

definition retryLogs :: "event list \<Rightarrow> nat" where
  "retryLogs t =
     length (filter (\<lambda>ev. ev = ConsoleLog ''Directory does not exist, retrying...'') t)"

definition commandError :: "'s panel_env \<Rightarrow> js_error option" where
  "commandError e =
     (case spawn e ''pnpm'' [''install''] (Cwd ''/react'') of
        Inl err \<Rightarrow> Some err
      | Inr p1 \<Rightarrow>
          (case exit e p1 of
             Inl err \<Rightarrow> Some err
           | Inr exitCode \<Rightarrow>
               if exitCode \<noteq> 0 then None
               else
                 (case spawn e ''pnpm'' [''dev''] (Cwd ''/react'') of
                    Inl err \<Rightarrow> Some err
                  | Inr p2 \<Rightarrow> None)))"

text \<open>
  The size of the terminal once \<^verbatim>\<open>init\<close> has fitted it, and the four dynamic imports
  resolving.
\<close>

definition fittedSize :: "'s panel_env \<Rightarrow> xterm" where
  "fittedSize e =
     (case proposeDimensions e of
        None \<Rightarrow> defaultSize e
      | Some (c, r) \<Rightarrow> (defaultSize e)\<lparr>cols := c, rows := r\<rparr>)"

definition modulesLoad :: "'s panel_env \<Rightarrow> bool" where
  "modulesLoad e \<longleftrightarrow>
     importModule e ''xterm'' = Inr () \<and> importModule e ''xterm-addon-fit'' = Inr () \<and>
     importModule e ''xterm-addon-web-links'' = Inr () \<and>
     importModule e ''xterm-addon-webgl'' = Inr ()"

text \<open>
  The calls of \<^verbatim>\<open>init\<close> before the spawn of the shell, the spawn, and the wiring after it.
\<close>

definition mountCalls :: "event list" where
  "mountCalls =
     [Import ''xterm'', Import ''xterm-addon-fit'', Import ''xterm-addon-web-links'',
      Import ''xterm-addon-webgl'', New ''FitAddon'', New ''WebLinksAddon'', New ''WebglAddon'',
      New ''Terminal'', LoadAddon ''FitAddon'', LoadAddon ''WebLinksAddon'',
      LoadAddon ''WebglAddon'', TerminalOpen, Fit]"

definition shellOptions :: "'s panel_env \<Rightarrow> spawn_options" where
  "shellOptions e = TerminalSize (Some (cols (fittedSize e))) (Some (rows (fittedSize e)))"

definition wiringCalls :: "process \<Rightarrow> event list" where
  "wiringCalls sh =
     [AddWindowListener ''resize'', PipeTo sh WriteToTerminalVariable, GetWriter sh, OnData sh]"

text \<open>
  What holds of the store between calls of \<^verbatim>\<open>initWebContainer\<close>, from the initial store on:
  it is marked initialized exactly when it holds an instance, and every listener of the
  trace was registered on the instance it holds.
\<close>

definition storeInv :: "'w world_scheme \<Rightarrow> bool" where
  "storeInv w \<longleftrightarrow>
     (isInitialized w \<longleftrightarrow> webContainerInstance w \<noteq> None) \<and>
     (\<forall>c name. On c name \<in> set (trace w) \<longrightarrow> webContainerInstance w = Some c)"

text \<open>
  The spawn of the shell among the events, and the calls of a trace before it.
\<close>

fun isShellSpawn :: "event \<Rightarrow> bool" where
  "isShellSpawn (Spawn wc cmd as opts) = (cmd = ''jsh'')"
| "isShellSpawn _ = False"

definition beforeShell :: "event list \<Rightarrow> event list" where
  "beforeShell t = takeWhile (\<lambda>ev. \<not> isShellSpawn ev) t"

text \<open>
  The writes of a trace to the store's instance and mark, as pairs.
\<close>

fun instanceWrite :: "event \<Rightarrow> (container option \<times> bool) list" where
  "instanceWrite (SetInstance inst b) = [(inst, b)]"
| "instanceWrite _ = []"

definition instanceWrites :: "event list \<Rightarrow> (container option \<times> bool) list" where
  "instanceWrites t = concat (map instanceWrite t)"

text \<open>
  The instance a call of \<^verbatim>\<open>initWebContainer\<close> works on, from the store as the call reads it
  when it starts: the instance the store holds; with none and the store marked
  initialized, none; with none and no mark, the instance that \<^verbatim>\<open>WebContainer.boot\<close> gives.
\<close>

definition ownInstance :: "'s store_env \<Rightarrow> 'w world_scheme \<Rightarrow> container option" where
  "ownInstance e w =
     (case webContainerInstance w of
        Some c \<Rightarrow> Some c
      | None \<Rightarrow>
          if isInitialized w then None
          else (case boot e of Inl err \<Rightarrow> None | Inr c \<Rightarrow> Some c))"

text \<open>
  What runs during the awaits of the panel neither clears nor creates the terminal
  variable, and neither mounts nor unmounts the DOM node: the cleanup does not run, the
  component stays mounted.
\<close>

definition staysMounted :: "'p panel_scheme panel_env \<Rightarrow> bool" where
  "staysMounted e \<longleftrightarrow>
     (\<forall>ev p. (terminal (meanwhile e ev p) = None \<longleftrightarrow> terminal p = None) \<and>
             (terminalRef (meanwhile e ev p) \<longleftrightarrow> terminalRef p))"

section \<open>Concrete runs\<close>

text \<open>
  A store environment with nothing cached, one with a cached project, and one whose
  lookup of the cache rejects; nothing runs during their awaits.
\<close>

definition quietEnv :: "'s store_env" where
  "quietEnv =
     \<lparr>meanwhile = (\<lambda>ev w. w), getItem = (\<lambda>_. Inr None), boot = Inr 0, parse = (\<lambda>_. Inr []),
      curDirectory = None, writeDirByLocal = (\<lambda>_ _. Inr ())\<rparr>"

definition cachedEnv :: "'s store_env" where
  "cachedEnv =
     \<lparr>meanwhile = (\<lambda>ev w. w), getItem = (\<lambda>_. Inr (Some ''cached'')), boot = Inr 7,
      parse = (\<lambda>_. Inr ''tree''), curDirectory = Some ''dir'',
      writeDirByLocal = (\<lambda>_ _. Inr ())\<rparr>"

definition offlineEnv :: "'s store_env" where
  "offlineEnv = quietEnv\<lparr>getItem := (\<lambda>_. Inl (JsError ''storage''))\<rparr>"



text \<open>The store as \<^verbatim>\<open>setInitialized(true)\<close> leaves the initial one, and one with an instance.\<close>

definition markedStore :: world where
  "markedStore = snd (setInitialized True initialStore)"

definition bootedStore :: world where
  "bootedStore =
     \<lparr>webContainerInstance = Some 7, isInitialized = True, url = [], trace = []\<rparr>"

text \<open>
  A panel environment where the directory is found at the third attempt and both commands
  run; one where the installation exits with code 1; one where the directory never
  appears; one where the development server cannot be spawned. Nothing runs during their
  awaits.
\<close>

definition readyEnv :: "'s panel_env" where
  "readyEnv =
     \<lparr>meanwhile = (\<lambda>ev w. w),
      importModule = (\<lambda>_. Inr ()), defaultSize = \<lparr>cols = 80, rows = 24\<rparr>,
      proposeDimensions = Some (120, 30),
      spawn = (\<lambda>cmd as opts.
        if cmd = ''jsh'' then Inr 1 else if as = [''install''] then Inr 2 else Inr 3),
      readdir = (\<lambda>i. if i < 2 then Inl (JsError ''ENOENT'') else Inr ()),
      exit = (\<lambda>_. Inr 0)\<rparr>"

definition failingInstallEnv :: "'s panel_env" where
  "failingInstallEnv = readyEnv\<lparr>exit := (\<lambda>_. Inr 1)\<rparr>"

definition missingDirEnv :: "'s panel_env" where
  "missingDirEnv = readyEnv\<lparr>readdir := (\<lambda>_. Inl (JsError ''ENOENT''))\<rparr>"

definition noDevEnv :: "'s panel_env" where
  "noDevEnv =
     readyEnv\<lparr>spawn := (\<lambda>cmd as opts.
       if cmd = ''jsh'' then Inr 1 else if as = [''install''] then Inr 2
       else Inl (JsError ''EAGAIN''))\<rparr>"

text \<open>
  The panel unmounted while the spawn of the shell is pending: the cleanup of the effect
  runs during that await.
\<close>

fun unmount :: "event \<Rightarrow> 'p panel_scheme \<Rightarrow> 'p panel_scheme" where
  "unmount (Spawn wc cmd as opts) p = (if cmd = ''jsh'' then snd (cleanup (Some wc) p) else p)"
| "unmount _ p = p"

definition unmountEnv :: "'p panel_scheme panel_env" where
  "unmountEnv = readyEnv\<lparr>meanwhile := unmount\<rparr>"

definition wiredPanel :: panel where
  "wiredPanel =
     \<lparr>webContainerInstance = Some 0, isInitialized = True, url = ''https://x.webcontainer.io'',
      trace = [], terminalRef = True, terminal = Some \<lparr>cols = 80, rows = 24\<rparr>,
      fitAddon = Some Loaded, shell = Some 1\<rparr>"

definition mountedPanel :: panel where
  "mountedPanel =
     \<lparr>webContainerInstance = Some 0, isInitialized = True, url = [], trace = [],
      terminalRef = True, terminal = None, fitAddon = None, shell = None\<rparr>"

lemmas act_defs =
  ret_def throw_def andThen_def tryCatch_def getState_def modify_def emit_def sync_def await_def

section \<open>Running actions\<close>

lemma andThen_ret: "andThen (ret x) f = f x"
  by (rule ext) (simp add: andThen_def ret_def)

lemma andThen_throw: "andThen (throw err) f = throw err"
  by (rule ext) (simp add: andThen_def throw_def)

lemma andThen_assoc: "andThen (andThen m f) g = andThen m (\<lambda>x. andThen (f x) g)"
  by (rule ext) (simp add: andThen_def split: prod.splits sum.splits)

lemma andThen_getState: "andThen getState f w = f w w"
  by (simp add: andThen_def getState_def)

lemma andThen_modify: "andThen (modify g) f w = f () (g w)"
  by (simp add: andThen_def modify_def)

lemma andThen_emit: "andThen (emit ev) f w = f () (w\<lparr>trace := trace w @ [ev]\<rparr>)"
  by (simp add: andThen_def emit_def)

lemma andThen_await:
  "andThen (await e ev r) f w =
     (case r of
        Inl err \<Rightarrow> (Inl err, (meanwhile e ev w)\<lparr>trace := trace w @ [ev]\<rparr>)
      | Inr x \<Rightarrow> f x ((meanwhile e ev w)\<lparr>trace := trace w @ [ev]\<rparr>))"
  by (simp add: andThen_def await_def split: sum.splits)

lemma andThen_sync:
  "andThen (sync ev r) f w =
     (case r of
        Inl err \<Rightarrow> (Inl err, w\<lparr>trace := trace w @ [ev]\<rparr>)
      | Inr x \<Rightarrow> f x (w\<lparr>trace := trace w @ [ev]\<rparr>))"
  by (simp add: andThen_def sync_def split: sum.splits)

lemma andThen_writeln:
  "andThen (writeln (Some tm) msg) f w = f () (w\<lparr>trace := trace w @ [TermWriteln msg]\<rparr>)"
  "andThen (writeln None msg) f w = (Inl (JsError ''TypeError''), w)"
  by (simp_all add: andThen_def writeln_def emit_def throw_def)

lemma andThen_option:
  "andThen (case x of None \<Rightarrow> a | Some y \<Rightarrow> b y) f =
     (case x of None \<Rightarrow> andThen a f | Some y \<Rightarrow> andThen (b y) f)"
  by (cases x) simp_all

lemma andThen_if: "andThen (if c then a else b) f = (if c then andThen a f else andThen b f)"
  by simp

lemmas run_simps = andThen_ret andThen_throw andThen_assoc andThen_getState andThen_modify
  andThen_emit andThen_sync andThen_await andThen_writeln andThen_option andThen_if

section \<open>The wait for the directory and the command list\<close>

lemma firstReady_rec:
  "firstReady e i =
     (if i < maxRetries then (if completed (readdir e i) then Some i else firstReady e (Suc i))
      else None)"
  by (simp add: firstReady_def upt_rec[of i])

lemma firstReady_bounds:
  "firstReady e i = Some k \<Longrightarrow> i \<le> k \<and> k < maxRetries \<and> completed (readdir e k)"
  unfolding firstReady_def find_Some_iff by auto

lemma waitForReactDir_closed:
  "fst (waitForReactDir e wc (Some tm) i w) = Inr (firstReady e i \<noteq> None) \<and>
   trace (snd (waitForReactDir e wc (Some tm) i w)) =
     trace w @
     (case firstReady e i of
        Some k \<Rightarrow>
          concat (replicate (k - i) (retryRound wc)) @
          [Readdir wc ''/react'', TermWriteln DirectoryReady]
      | None \<Rightarrow> concat (replicate (maxRetries - i) (retryRound wc)))"
proof (induction e wc "Some tm" i arbitrary: w rule: waitForReactDir.induct)
  case (1 e wc i)
  show ?case
  proof (cases "i < maxRetries")
    case False
    then show ?thesis
      by (subst (1 2) waitForReactDir.simps, subst (1 2) firstReady_rec) (simp add: ret_def)
  next
    case less: True
    show ?thesis
    proof (cases "readdir e i")
      case (Inr u)
      with less show ?thesis
        by (subst (1 2) waitForReactDir.simps, subst (1 2) firstReady_rec)
           (simp add: completed_def act_defs writeln_def)
    next
      case (Inl err)
      define w1 where "w1 =
        (meanwhile e (SetTimeout retryInterval)
           ((meanwhile e (Readdir wc ''/react'') w)
              \<lparr>trace := trace w @ [Readdir wc ''/react'',
                 ConsoleLog ''Directory does not exist, retrying...'']\<rparr>))
          \<lparr>trace := trace w @ retryRound wc\<rparr>"
      have w1: "trace w1 = trace w @ retryRound wc"
        by (simp add: w1_def)
      have step: "waitForReactDir e wc (Some tm) i w = waitForReactDir e wc (Some tm) (Suc i) w1"
        using less Inl
        by (subst waitForReactDir.simps)
           (simp add: act_defs retryRound_def w1_def)
      have fr: "firstReady e i = firstReady e (Suc i)"
        using less Inl by (subst firstReady_rec) (simp add: completed_def)
      have IH: "fst (waitForReactDir e wc (Some tm) (Suc i) w1) = Inr (firstReady e (Suc i) \<noteq> None) \<and>
         trace (snd (waitForReactDir e wc (Some tm) (Suc i) w1)) =
           trace w1 @
           (case firstReady e (Suc i) of
              Some k \<Rightarrow>
                concat (replicate (k - Suc i) (retryRound wc)) @
                [Readdir wc ''/react'', TermWriteln DirectoryReady]
            | None \<Rightarrow> concat (replicate (maxRetries - Suc i) (retryRound wc)))"
        by (rule "1.hyps"[OF less]) (rule notI, erule FalseE)
      show ?thesis
      proof (cases "firstReady e (Suc i)")
        case None
        have "maxRetries - i = Suc (maxRetries - Suc i)" using less by arith
        with IH show ?thesis
          unfolding step fr None w1 by simp
      next
        case (Some k)
        from firstReady_bounds[OF Some] have "k - i = Suc (k - Suc i)" by arith
        with IH show ?thesis
          unfolding step fr Some w1 by simp
      qed
    qed
  qed
qed

lemma waitForReactDir_kept:
  assumes "\<And>ev q. g (meanwhile e ev q) = g q" "\<And>q t. g (q\<lparr>trace := t\<rparr>) = g q"
  shows "g (snd (waitForReactDir e wc t i w)) = g w"
  using assms
proof (induction e wc t i arbitrary: w rule: waitForReactDir.induct)
  case (1 e wc t i)
  note kept = "1.prems"
  show ?case
  proof (cases "i < maxRetries")
    case False
    then show ?thesis
      by (subst waitForReactDir.simps) (simp add: ret_def)
  next
    case less: True
    define round where "round =
      tryCatch
        (andThen (await e (Readdir wc ''/react'') (readdir e i)) (\<lambda>_.
         andThen (writeln t DirectoryReady) (\<lambda>_.
         ret True)))
        (\<lambda>error.
         andThen (emit (ConsoleLog ''Directory does not exist, retrying...'')) (\<lambda>_.
         andThen (await e (SetTimeout retryInterval) (Inr ())) (\<lambda>_.
         ret False)))"
    have "\<exists>b w1. round w = (Inr b, w1) \<and> g w1 = g w"
      by (cases "readdir e i"; cases t) (auto simp: round_def act_defs writeln_def kept)
    then obtain b w1 where round: "round w = (Inr b, w1)" and w1: "g w1 = g w"
      by blast
    have unfold: "waitForReactDir e wc t i w =
        (if b then (Inr True, w1) else waitForReactDir e wc t (Suc i) w1)"
      using less round
      by (subst waitForReactDir.simps) (simp add: round_def[symmetric] andThen_def ret_def)
    show ?thesis
    proof (cases b)
      case True
      with unfold w1 show ?thesis by simp
    next
      case False
      have "g (snd (waitForReactDir e wc t (Suc i) w1)) = g w1"
        by (rule "1.IH"[OF less _ kept]) (rule notI, erule FalseE)
      with unfold w1 False show ?thesis by simp
    qed
  qed
qed

lemma runCommands_kept:
  assumes "\<And>ev q. g (meanwhile e ev q) = g q" "\<And>q t. g (q\<lparr>trace := t\<rparr>) = g q"
  shows "g (snd (runCommands e wc t cs w)) = g w"
proof (induction cs arbitrary: w)
  case Nil
  show ?case by (simp add: ret_def)
next
  case (Cons c cs)
  show ?case
  proof (cases t)
    case None
    then show ?thesis by (simp add: act_defs writeln_def)
  next
    case (Some tm)
    show ?thesis
      unfolding Some
      by (simp add: act_defs writeln_def assms Cons.IH[unfolded Some] split: sum.splits)
  qed
qed

lemma andThen_known:
  "m w = (r, w1) \<Longrightarrow>
   andThen m f w = (case r of Inl err \<Rightarrow> (Inl err, w1) | Inr x \<Rightarrow> f x w1)"
  by (simp add: andThen_def split: sum.splits)

lemma commands_closed:
  "(case runCommands e wc (Some tm) commands w of
      (Inl err, w1) \<Rightarrow>
        trace w1 @ caught err = trace w @ commandCalls e wc \<and> commandError e = Some err
    | (Inr finished, w1) \<Rightarrow>
        trace w1 @ (if finished then [TermWriteln AutoStartComplete] else []) =
          trace w @ commandCalls e wc \<and> commandError e = None)"
  by (simp add: commands_def run_simps ret_def commandCalls_def commandError_def caught_def
      split: sum.splits)

lemma tryCatch_known:
  "m w = (Inr x, w1) \<Longrightarrow> tryCatch (andThen m f) h w = tryCatch (f x) h w1"
  by (simp add: tryCatch_def andThen_def)

lemma tryCatch_writeln:
  "tryCatch (andThen (writeln (Some tm) msg) f) h w =
     tryCatch (f ()) h (w\<lparr>trace := trace w @ [TermWriteln msg]\<rparr>)"
  by (simp add: tryCatch_def andThen_def writeln_def emit_def)

lemma commands_caught:
  "fst (tryCatch
          (andThen (runCommands e wc (Some tm) commands) (\<lambda>finished.
           if finished then writeln (Some tm) AutoStartComplete else ret ()))
          (\<lambda>error.
           andThen (emit (ConsoleError error)) (\<lambda>_.
           writeln (Some tm) (AutoStartFailed error))) w) = Inr () \<and>
   trace (snd (tryCatch
          (andThen (runCommands e wc (Some tm) commands) (\<lambda>finished.
           if finished then writeln (Some tm) AutoStartComplete else ret ()))
          (\<lambda>error.
           andThen (emit (ConsoleError error)) (\<lambda>_.
           writeln (Some tm) (AutoStartFailed error))) w)) = trace w @ commandCalls e wc"
proof -
  obtain r w1 where run: "runCommands e wc (Some tm) commands w = (r, w1)"
    by (cases "runCommands e wc (Some tm) commands w")
  note closed = commands_closed[where e = e and wc = wc and tm = tm and w = w]
  show ?thesis
  proof (cases r)
    case (Inl err)
    with closed run show ?thesis
      by (simp add: tryCatch_def andThen_def writeln_def emit_def caught_def
          del: runCommands.simps)
  next
    case (Inr finished)
    with closed run show ?thesis
      by (simp add: tryCatch_def andThen_def writeln_def emit_def ret_def
          del: runCommands.simps split: if_splits)
  qed
qed

lemma executeAutoCommands_closed:
  "fst (executeAutoCommands e wc (Some tm) w) = Inr () \<and>
   trace (snd (executeAutoCommands e wc (Some tm) w)) = trace w @ autoCalls e wc"
proof -
  define w0 where "w0 = w\<lparr>trace := trace w @ [TermWriteln WaitingForDirectory]\<rparr>"
  obtain r w1 where wait: "waitForReactDir e wc (Some tm) 0 w0 = (r, w1)"
    by (cases "waitForReactDir e wc (Some tm) 0 w0")
  with waitForReactDir_closed[where e = e and wc = wc and tm = tm and i = 0 and w = w0]
  have r: "r = Inr (firstReady e 0 \<noteq> None)"
    and w1: "trace w1 =
      trace w @ TermWriteln WaitingForDirectory #
      (case firstReady e 0 of
         Some k \<Rightarrow>
           concat (replicate k (retryRound wc)) @
           [Readdir wc ''/react'', TermWriteln DirectoryReady]
       | None \<Rightarrow> concat (replicate maxRetries (retryRound wc)))"
    by (simp_all add: w0_def split: option.splits)
  show ?thesis
  proof (cases "firstReady e 0")
    case None
    with r wait have wait': "waitForReactDir e wc (Some tm) 0 w0 = (Inr False, w1)"
      by simp
    have "executeAutoCommands e wc (Some tm) w =
        (Inr (), w1\<lparr>trace := trace w1 @ [TermWriteln DirectoryNotFound]\<rparr>)"
      unfolding executeAutoCommands_def tryCatch_writeln w0_def[symmetric]
        tryCatch_known[where m = "waitForReactDir e wc (Some tm) 0", OF wait']
      by (simp add: tryCatch_def writeln_def emit_def)
    with w1 None show ?thesis
      by (simp add: autoCalls_def)
  next
    case (Some k)
    with r wait have wait': "waitForReactDir e wc (Some tm) 0 w0 = (Inr True, w1)"
      by simp
    define w2 where "w2 = w1\<lparr>trace := trace w1 @ [TermWriteln AutoStartBegins]\<rparr>"
    have "executeAutoCommands e wc (Some tm) w =
        tryCatch
          (andThen (runCommands e wc (Some tm) commands) (\<lambda>finished.
           if finished then writeln (Some tm) AutoStartComplete else ret ()))
          (\<lambda>error.
           andThen (emit (ConsoleError error)) (\<lambda>_.
           writeln (Some tm) (AutoStartFailed error))) w2"
      unfolding executeAutoCommands_def tryCatch_writeln w0_def[symmetric]
        tryCatch_known[where m = "waitForReactDir e wc (Some tm) 0", OF wait']
      by (simp add: tryCatch_writeln w2_def del: runCommands.simps)
    with commands_caught[where e = e and wc = wc and tm = tm and w = w2] w1 Some
    show ?thesis
      by (simp add: autoCalls_def w2_def del: runCommands.simps)
  qed
qed

lemma executeAutoCommands_null:
  "executeAutoCommands e wc None w =
     (Inl (JsError ''TypeError''), w\<lparr>trace := trace w @ [ConsoleError (JsError ''TypeError'')]\<rparr>)"
  by (simp add: executeAutoCommands_def tryCatch_def run_simps writeln_def throw_def)

lemma attempts_append: "attempts (xs @ ys) = attempts xs + attempts ys"
  by (simp add: attempts_def)

lemma waited_append: "waited (xs @ ys) = waited xs + waited ys"
  by (simp add: waited_def)

lemma processCalls_append: "processCalls (xs @ ys) = processCalls xs @ processCalls ys"
  by (simp add: processCalls_def)

lemma attempts_Cons: "attempts (x # xs) = (if isReaddir x then 1 else 0) + attempts xs"
  by (simp add: attempts_def)

lemma waited_Cons: "waited (x # xs) = delay x + waited xs"
  by (simp add: waited_def)

lemma processCalls_Cons:
  "processCalls (x # xs) = (if isProcessCall x then x # processCalls xs else processCalls xs)"
  by (simp add: processCalls_def)

lemma observe_Nil: "attempts [] = 0" "waited [] = 0" "processCalls [] = []"
  by (simp_all add: attempts_def waited_def processCalls_def)

lemma rounds_observed:
  "attempts (concat (replicate n (retryRound wc))) = n"
  "waited (concat (replicate n (retryRound wc))) = n * retryInterval"
  "processCalls (concat (replicate n (retryRound wc))) = []"
  by (induction n)
     (simp_all add: observe_Nil attempts_append waited_append processCalls_append
        attempts_Cons waited_Cons processCalls_Cons retryRound_def)

lemmas observe_simps = observe_Nil attempts_append waited_append processCalls_append
  attempts_Cons waited_Cons processCalls_Cons rounds_observed

lemma firstReady_Some_iff:
  "firstReady e 0 = Some k \<longleftrightarrow>
     k < maxRetries \<and> completed (readdir e k) \<and> (\<forall>j<k. \<not> completed (readdir e j))"
  unfolding firstReady_def find_Some_iff
  by (auto simp: nth_upt) 

lemma firstReady_None_iff:
  "firstReady e 0 = None \<longleftrightarrow> (\<forall>j<maxRetries. \<not> completed (readdir e j))"
  unfolding firstReady_def find_None_iff by auto

lemma calls_executeAutoCommands:
  "calls (executeAutoCommands e wc (Some tm)) w = autoCalls e wc"
  by (simp add: calls_def executeAutoCommands_closed)

lemma calls_executeAutoCommands_null:
  "calls (executeAutoCommands e wc None) w = [ConsoleError (JsError ''TypeError'')]"
  by (simp add: calls_def executeAutoCommands_null)

lemma commandCalls_observed:
  "attempts (commandCalls e wc) = 0" "waited (commandCalls e wc) = 0"
  by (simp_all add: commandCalls_def caught_def observe_simps split: sum.splits)

lemma processCalls_commandCalls:
  "processCalls (commandCalls e wc) =
     Spawn wc ''pnpm'' [''install''] (Cwd ''/react'') #
     (case spawn e ''pnpm'' [''install''] (Cwd ''/react'') of
        Inl err \<Rightarrow> []
      | Inr p1 \<Rightarrow>
          AwaitExit p1 #
          (case exit e p1 of
             Inl err \<Rightarrow> []
           | Inr exitCode \<Rightarrow>
               if exitCode \<noteq> 0 then []
               else [Spawn wc ''pnpm'' [''dev''] (Cwd ''/react'')]))"
  by (simp add: commandCalls_def caught_def observe_simps split: sum.splits)

lemma attempts_dropWhile: "attempts (dropWhile P t) \<le> attempts t"
  by (induction t) (simp_all add: attempts_def)

lemma waited_dropWhile: "waited (dropWhile P t) \<le> waited t"
  by (induction t) (simp_all add: waited_def)

lemma polls_with_terminal:
  "attempts (calls (executeAutoCommands e wc (Some tm)) w) \<le> 50 \<and>
   waited (calls (executeAutoCommands e wc (Some tm)) w) \<le> 10000 \<and>
   (\<forall>k. k < 50 \<and> completed (readdir e k) \<and> (\<forall>j<k. \<not> completed (readdir e j)) \<longrightarrow>
      attempts (calls (executeAutoCommands e wc (Some tm)) w) = Suc k \<and>
      waited (calls (executeAutoCommands e wc (Some tm)) w) = 200 * k) \<and>
   ((\<forall>j<50. \<not> completed (readdir e j)) \<longrightarrow>
      attempts (calls (executeAutoCommands e wc (Some tm)) w) = 50 \<and>
      waited (calls (executeAutoCommands e wc (Some tm)) w) = 10000 \<and>
      processCalls (calls (executeAutoCommands e wc (Some tm)) w) = [] \<and>
      fst (executeAutoCommands e wc (Some tm) w) = Inr ()) \<and>
   attempts (afterFirstProcessCall (calls (executeAutoCommands e wc (Some tm)) w)) = 0 \<and>
   waited (afterFirstProcessCall (calls (executeAutoCommands e wc (Some tm)) w)) = 0"
proof (cases "firstReady e 0")
  case None
  then have all: "\<forall>j<50. \<not> completed (readdir e j)"
    by (simp add: firstReady_None_iff maxRetries_def)
  have t: "calls (executeAutoCommands e wc (Some tm)) w =
      TermWriteln WaitingForDirectory # concat (replicate 50 (retryRound wc)) @ [TermWriteln DirectoryNotFound]"
    by (simp add: calls_executeAutoCommands autoCalls_def None maxRetries_def)
  have nocall: "\<forall>ev \<in> set (calls (executeAutoCommands e wc (Some tm)) w). \<not> isProcessCall ev"
    unfolding t by (auto simp: retryRound_def)
  have after: "afterFirstProcessCall (calls (executeAutoCommands e wc (Some tm)) w) = []"
    unfolding afterFirstProcessCall_def using nocall by simp
  show ?thesis
    unfolding after using all
    by (auto simp: t observe_simps retryInterval_def executeAutoCommands_closed)
next
  case (Some k)
  then have k: "k < 50" "completed (readdir e k)" "\<forall>j<k. \<not> completed (readdir e j)"
    by (simp_all add: firstReady_Some_iff maxRetries_def)
  have uniq: "k' = k"
    if "k' < 50 \<and> completed (readdir e k') \<and> (\<forall>j<k'. \<not> completed (readdir e j))" for k'
  proof (rule ccontr)
    assume "k' \<noteq> k"
    then consider "k' < k" | "k < k'" by arith
    then show False
    proof cases
      case 1
      with k(3) that show False by blast
    next
      case 2
      with k(2) that show False by blast
    qed
  qed
  have none: "\<not> (\<forall>j<50. \<not> completed (readdir e j))"
    using k(1,2) by blast
  let ?poll = "TermWriteln WaitingForDirectory # concat (replicate k (retryRound wc)) @
          [Readdir wc ''/react'', TermWriteln DirectoryReady, TermWriteln AutoStartBegins]"
  have t: "calls (executeAutoCommands e wc (Some tm)) w = ?poll @ commandCalls e wc"
    by (simp add: calls_executeAutoCommands autoCalls_def Some)
  have quiet: "\<forall>ev \<in> set ?poll. \<not> isProcessCall ev"
    by (auto simp: retryRound_def)
  have after: "afterFirstProcessCall (calls (executeAutoCommands e wc (Some tm)) w) =
      dropWhile (\<lambda>ev. \<not> isProcessCall ev) (commandCalls e wc)"
    unfolding afterFirstProcessCall_def t by (rule dropWhile_append2) (use quiet in blast)
  have c: "attempts (afterFirstProcessCall (calls (executeAutoCommands e wc (Some tm)) w)) = 0"
    and d: "waited (afterFirstProcessCall (calls (executeAutoCommands e wc (Some tm)) w)) = 0"
    unfolding after
    using attempts_dropWhile[of _ "commandCalls e wc"] waited_dropWhile[of _ "commandCalls e wc"]
    by (simp_all add: commandCalls_observed)
  have a: "attempts (calls (executeAutoCommands e wc (Some tm)) w) = Suc k"
    and b: "waited (calls (executeAutoCommands e wc (Some tm)) w) = 200 * k"
    by (simp_all add: t observe_simps commandCalls_observed retryInterval_def)
  have first: "\<forall>k'. k' < 50 \<and> completed (readdir e k') \<and> (\<forall>j<k'. \<not> completed (readdir e j)) \<longrightarrow>
      attempts (calls (executeAutoCommands e wc (Some tm)) w) = Suc k' \<and>
      waited (calls (executeAutoCommands e wc (Some tm)) w) = 200 * k'"
    using uniq a b by blast
  have le: "attempts (calls (executeAutoCommands e wc (Some tm)) w) \<le> 50"
    "waited (calls (executeAutoCommands e wc (Some tm)) w) \<le> 10000"
    using k(1) by (simp_all add: a b)
  from le first none c d show ?thesis by blast
qed

text \<open>
  C3. Before any command runs, \<^verbatim>\<open>executeAutoCommands\<close> reads \<^verbatim>\<open>/react\<close> at most 50 times and
  spends 200 ms in a timeout for each failed attempt, so at most 10 seconds in all. When
  attempt \<open>k\<close> is the first to succeed, it is the last one: \<open>k + 1\<close> reads and \<open>k\<close> pauses.
  When all 50 attempts fail, the function returns normally and no process is spawned.
  Nothing is read or waited for once the first process call is made. That is so of a call
  with a terminal, whatever runs during its awaits; a call with null for the terminal
  throws before its first read: it reads, waits for and spawns nothing.
\<close>

theorem executeAutoCommands_polls_at_most_50:
  "attempts (calls (executeAutoCommands e wc t) w) \<le> 50 \<and>
   waited (calls (executeAutoCommands e wc t) w) \<le> 10000 \<and>
   (\<forall>tm k. t = Some tm \<and> k < 50 \<and> completed (readdir e k) \<and>
           (\<forall>j<k. \<not> completed (readdir e j)) \<longrightarrow>
      attempts (calls (executeAutoCommands e wc t) w) = Suc k \<and>
      waited (calls (executeAutoCommands e wc t) w) = 200 * k) \<and>
   (\<forall>tm. t = Some tm \<and> (\<forall>j<50. \<not> completed (readdir e j)) \<longrightarrow>
      attempts (calls (executeAutoCommands e wc t) w) = 50 \<and>
      waited (calls (executeAutoCommands e wc t) w) = 10000 \<and>
      processCalls (calls (executeAutoCommands e wc t) w) = [] \<and>
      fst (executeAutoCommands e wc t w) = Inr ()) \<and>
   attempts (afterFirstProcessCall (calls (executeAutoCommands e wc t) w)) = 0 \<and>
   waited (afterFirstProcessCall (calls (executeAutoCommands e wc t) w)) = 0 \<and>
   (t = None \<longrightarrow>
      attempts (calls (executeAutoCommands e wc t) w) = 0 \<and>
      waited (calls (executeAutoCommands e wc t) w) = 0 \<and>
      processCalls (calls (executeAutoCommands e wc t) w) = [])"
proof (cases t)
  case None
  show ?thesis
    unfolding None
    by (simp add: calls_executeAutoCommands_null afterFirstProcessCall_def observe_simps)
next
  case (Some tm)
  show ?thesis
    unfolding Some
    using polls_with_terminal[where e = e and wc = wc and tm = tm and w = w]
    by simp
qed

theorem executeAutoCommands_polls_at_most_50_witness:
  "attempts (calls (executeAutoCommands readyEnv 0 (Some \<lparr>cols = 80, rows = 24\<rparr>)) mountedPanel) = 3 \<and>
   waited (calls (executeAutoCommands readyEnv 0 (Some \<lparr>cols = 80, rows = 24\<rparr>)) mountedPanel) = 400 \<and>
   attempts (calls (executeAutoCommands missingDirEnv 0 (Some \<lparr>cols = 80, rows = 24\<rparr>)) mountedPanel) = 50 \<and>
   waited (calls (executeAutoCommands missingDirEnv 0 (Some \<lparr>cols = 80, rows = 24\<rparr>)) mountedPanel) = 10000 \<and>
   processCalls (calls (executeAutoCommands missingDirEnv 0 (Some \<lparr>cols = 80, rows = 24\<rparr>)) mountedPanel) = [] \<and>
   attempts (calls (executeAutoCommands readyEnv 0 None) mountedPanel) = 0"
proof -
  let ?t = "Some \<lparr>cols = 80, rows = 24\<rparr>"
  have found: "?t = Some \<lparr>cols = 80, rows = 24\<rparr> \<and> (2::nat) < 50 \<and>
      completed (readdir (readyEnv :: panel panel_env) 2) \<and>
      (\<forall>j<2. \<not> completed (readdir (readyEnv :: panel panel_env) j))"
    by (simp add: readyEnv_def completed_def)
  have missing: "?t = Some \<lparr>cols = 80, rows = 24\<rparr> \<and>
      (\<forall>j<50. \<not> completed (readdir (missingDirEnv :: panel panel_env) j))"
    by (simp add: missingDirEnv_def completed_def)
  note ready = executeAutoCommands_polls_at_most_50
    [where e = readyEnv and wc = 0 and t = ?t and w = mountedPanel]
  note absent = executeAutoCommands_polls_at_most_50
    [where e = missingDirEnv and wc = 0 and t = ?t and w = mountedPanel]
  note null = executeAutoCommands_polls_at_most_50
    [where e = readyEnv and wc = 0 and t = None and w = mountedPanel]
  from ready found
  have "attempts (calls (executeAutoCommands readyEnv 0 ?t) mountedPanel) = Suc 2 \<and>
      waited (calls (executeAutoCommands readyEnv 0 ?t) mountedPanel) = 200 * 2"
    by blast
  moreover from absent missing
  have "attempts (calls (executeAutoCommands missingDirEnv 0 ?t) mountedPanel) = 50 \<and>
      waited (calls (executeAutoCommands missingDirEnv 0 ?t) mountedPanel) = 10000 \<and>
      processCalls (calls (executeAutoCommands missingDirEnv 0 ?t) mountedPanel) = []"
    by blast
  moreover from null
  have "attempts (calls (executeAutoCommands readyEnv 0 None) mountedPanel) = 0"
    by blast
  ultimately show ?thesis by simp
qed

text \<open>
  C4. Once the directory is found, the processes started and the exits awaited are, in
  this order: \<^verbatim>\<open>pnpm install\<close> in \<^verbatim>\<open>/react\<close>, the exit of that process, and then, only when
  the exit code is 0, \<^verbatim>\<open>pnpm dev\<close> in \<^verbatim>\<open>/react\<close>, whose exit is not awaited. Nothing follows
  a spawn or an exit that throws. That is so of a call with a terminal, whatever runs
  during its awaits; a call with null for the terminal never looks for the directory and
  starts no process.
\<close>

theorem executeAutoCommands_command_list:
  assumes "k < 50" "completed (readdir e k)" "\<forall>j<k. \<not> completed (readdir e j)"
  shows "processCalls (calls (executeAutoCommands e wc (Some tm)) w) =
     Spawn wc ''pnpm'' [''install''] (Cwd ''/react'') #
     (case spawn e ''pnpm'' [''install''] (Cwd ''/react'') of
        Inl err \<Rightarrow> []
      | Inr p1 \<Rightarrow>
          AwaitExit p1 #
          (case exit e p1 of
             Inl err \<Rightarrow> []
           | Inr exitCode \<Rightarrow>
               if exitCode \<noteq> 0 then []
               else [Spawn wc ''pnpm'' [''dev''] (Cwd ''/react'')])) \<and>
     processCalls (calls (executeAutoCommands e wc None) w) = []"
proof -
  from assms have "firstReady e 0 = Some k"
    by (simp add: firstReady_Some_iff maxRetries_def)
  then have "calls (executeAutoCommands e wc (Some tm)) w =
      (TermWriteln WaitingForDirectory # concat (replicate k (retryRound wc)) @
          [Readdir wc ''/react'', TermWriteln DirectoryReady, TermWriteln AutoStartBegins]) @ commandCalls e wc"
    by (simp add: calls_executeAutoCommands autoCalls_def)
  then show ?thesis
    by (simp add: observe_simps processCalls_commandCalls calls_executeAutoCommands_null)
qed


theorem executeAutoCommands_command_list_witness:
  "processCalls (calls (executeAutoCommands readyEnv 0 (Some \<lparr>cols = 80, rows = 24\<rparr>)) mountedPanel) =
     [Spawn 0 ''pnpm'' [''install''] (Cwd ''/react''), AwaitExit 2,
      Spawn 0 ''pnpm'' [''dev''] (Cwd ''/react'')] \<and>
   processCalls (calls (executeAutoCommands failingInstallEnv 0 (Some \<lparr>cols = 80, rows = 24\<rparr>))
     mountedPanel) =
     [Spawn 0 ''pnpm'' [''install''] (Cwd ''/react''), AwaitExit 2]"
proof -
  have found: "(2::nat) < 50" "completed (readdir (readyEnv :: panel panel_env) 2)"
      "\<forall>j<2. \<not> completed (readdir (readyEnv :: panel panel_env) j)"
    by (simp_all add: readyEnv_def completed_def)
  have found': "completed (readdir (failingInstallEnv :: panel panel_env) 2)"
      "\<forall>j<2. \<not> completed (readdir (failingInstallEnv :: panel panel_env) j)"
    by (simp_all add: failingInstallEnv_def readyEnv_def completed_def)
  show ?thesis
    using executeAutoCommands_command_list[OF found, where wc = 0 and w = mountedPanel
        and tm = "\<lparr>cols = 80, rows = 24\<rparr>"]
      executeAutoCommands_command_list[OF found(1) found', where wc = 0 and w = mountedPanel
        and tm = "\<lparr>cols = 80, rows = 24\<rparr>"]
    by (simp add: readyEnv_def failingInstallEnv_def)
qed

section \<open>Errors in \<^verbatim>\<open>executeAutoCommands\<close>\<close>

lemma errors_append:
  "loggedErrors (xs @ ys) = loggedErrors xs @ loggedErrors ys"
  "errorLines (xs @ ys) = errorLines xs @ errorLines ys"
  "retryLogs (xs @ ys) = retryLogs xs + retryLogs ys"
  by (simp_all add: loggedErrors_def errorLines_def retryLogs_def)

lemma rounds_errors:
  "loggedErrors (concat (replicate n (retryRound wc))) = []"
  "errorLines (concat (replicate n (retryRound wc))) = []"
  "retryLogs (concat (replicate n (retryRound wc))) = n"
  by (induction n)
     (simp_all add: loggedErrors_def errorLines_def retryLogs_def retryRound_def)

lemma commandCalls_errors:
  "loggedErrors (commandCalls e wc) = (case commandError e of None \<Rightarrow> [] | Some err \<Rightarrow> [err])"
  "retryLogs (commandCalls e wc) = 0"
  "commandError e = Some err \<Longrightarrow>
     errorLines (commandCalls e wc) = [TermWriteln (AutoStartFailed err)]"
  "commandError e = None \<Longrightarrow>
     errorLines (commandCalls e wc) =
       (case spawn e ''pnpm'' [''install''] (Cwd ''/react'') of
          Inl err \<Rightarrow> []
        | Inr p1 \<Rightarrow>
            (case exit e p1 of
               Inl err \<Rightarrow> []
             | Inr exitCode \<Rightarrow>
                 if exitCode \<noteq> 0 then [TermWriteln (CommandFailed exitCode)] else []))"
  by (auto simp: commandCalls_def commandError_def caught_def loggedErrors_def errorLines_def
       retryLogs_def split: sum.splits if_splits)

lemma firstReady_readyEnv: "firstReady readyEnv 0 = Some 2"
  by (simp add: firstReady_Some_iff maxRetries_def readyEnv_def completed_def)

lemma errors_with_terminal:
  "fst (executeAutoCommands e wc (Some tm) w) = Inr () \<and>
   (\<forall>k. k < 50 \<and> completed (readdir e k) \<and> (\<forall>j<k. \<not> completed (readdir e j)) \<longrightarrow>
      retryLogs (calls (executeAutoCommands e wc (Some tm)) w) = k \<and>
      loggedErrors (calls (executeAutoCommands e wc (Some tm)) w) =
        (case commandError e of None \<Rightarrow> [] | Some err \<Rightarrow> [err]) \<and>
      (\<forall>err. commandError e = Some err \<longrightarrow>
         errorLines (calls (executeAutoCommands e wc (Some tm)) w) = [TermWriteln (AutoStartFailed err)]) \<and>
      (commandError e = None \<longrightarrow>
         errorLines (calls (executeAutoCommands e wc (Some tm)) w) =
           (case spawn e ''pnpm'' [''install''] (Cwd ''/react'') of
              Inl err \<Rightarrow> []
            | Inr p1 \<Rightarrow>
                (case exit e p1 of
                   Inl err \<Rightarrow> []
                 | Inr exitCode \<Rightarrow>
                     if exitCode \<noteq> 0 then [TermWriteln (CommandFailed exitCode)] else [])))) \<and>
   ((\<forall>j<50. \<not> completed (readdir e j)) \<longrightarrow>
      retryLogs (calls (executeAutoCommands e wc (Some tm)) w) = 50 \<and>
      loggedErrors (calls (executeAutoCommands e wc (Some tm)) w) = [] \<and>
      errorLines (calls (executeAutoCommands e wc (Some tm)) w) = [TermWriteln DirectoryNotFound])"
proof (intro conjI allI impI)
  show "fst (executeAutoCommands e wc (Some tm) w) = Inr ()"
    by (simp add: executeAutoCommands_closed)
next
  fix k
  assume "k < 50 \<and> completed (readdir e k) \<and> (\<forall>j<k. \<not> completed (readdir e j))"
  then have fr: "firstReady e 0 = Some k"
    by (simp add: firstReady_Some_iff maxRetries_def)
  have t: "calls (executeAutoCommands e wc (Some tm)) w =
      (TermWriteln WaitingForDirectory # concat (replicate k (retryRound wc))) @
      [Readdir wc ''/react'', TermWriteln DirectoryReady, TermWriteln AutoStartBegins] @
      commandCalls e wc"
    by (simp add: calls_executeAutoCommands autoCalls_def fr)
  have pre: "loggedErrors [TermWriteln WaitingForDirectory] = []"
    "errorLines [TermWriteln WaitingForDirectory] = []"
    "retryLogs [TermWriteln WaitingForDirectory] = 0"
    "loggedErrors [Readdir wc ''/react'', TermWriteln DirectoryReady, TermWriteln AutoStartBegins] = []"
    "errorLines [Readdir wc ''/react'', TermWriteln DirectoryReady, TermWriteln AutoStartBegins] = []"
    "retryLogs [Readdir wc ''/react'', TermWriteln DirectoryReady, TermWriteln AutoStartBegins] = 0"
    by (simp_all add: loggedErrors_def errorLines_def retryLogs_def)
  have split: "TermWriteln WaitingForDirectory # concat (replicate k (retryRound wc)) =
      [TermWriteln WaitingForDirectory] @ concat (replicate k (retryRound wc))"
    by simp
  show "retryLogs (calls (executeAutoCommands e wc (Some tm)) w) = k"
    unfolding t split errors_append by (simp add: pre rounds_errors commandCalls_errors)
  show "loggedErrors (calls (executeAutoCommands e wc (Some tm)) w) =
        (case commandError e of None \<Rightarrow> [] | Some err \<Rightarrow> [err])"
    unfolding t split errors_append by (simp add: pre rounds_errors commandCalls_errors)
  {
    fix err
    assume "commandError e = Some err"
    then show "errorLines (calls (executeAutoCommands e wc (Some tm)) w) =
        [TermWriteln (AutoStartFailed err)]"
      unfolding t split errors_append by (simp add: pre rounds_errors commandCalls_errors)
  }
  {
    assume "commandError e = None"
    then show "errorLines (calls (executeAutoCommands e wc (Some tm)) w) =
           (case spawn e ''pnpm'' [''install''] (Cwd ''/react'') of
              Inl err \<Rightarrow> []
            | Inr p1 \<Rightarrow>
                (case exit e p1 of
                   Inl err \<Rightarrow> []
                 | Inr exitCode \<Rightarrow>
                     if exitCode \<noteq> 0 then [TermWriteln (CommandFailed exitCode)] else []))"
      unfolding t split errors_append by (simp add: pre rounds_errors commandCalls_errors(4))
  }
next
  assume "\<forall>j<50. \<not> completed (readdir e j)"
  then have fr: "firstReady e 0 = None"
    by (simp add: firstReady_None_iff maxRetries_def)
  have t: "calls (executeAutoCommands e wc (Some tm)) w =
      [TermWriteln WaitingForDirectory] @ concat (replicate 50 (retryRound wc)) @
      [TermWriteln DirectoryNotFound]"
    by (simp add: calls_executeAutoCommands autoCalls_def fr maxRetries_def)
  have pre: "loggedErrors [TermWriteln WaitingForDirectory] = []"
    "errorLines [TermWriteln WaitingForDirectory] = []"
    "retryLogs [TermWriteln WaitingForDirectory] = 0"
    "loggedErrors [TermWriteln DirectoryNotFound] = []"
    "errorLines [TermWriteln DirectoryNotFound] = [TermWriteln DirectoryNotFound]"
    "retryLogs [TermWriteln DirectoryNotFound] = 0"
    by (simp_all add: loggedErrors_def errorLines_def retryLogs_def)
  show "retryLogs (calls (executeAutoCommands e wc (Some tm)) w) = 50"
    unfolding t errors_append by (simp add: pre rounds_errors)
  show "loggedErrors (calls (executeAutoCommands e wc (Some tm)) w) = []"
    unfolding t errors_append by (simp add: pre rounds_errors)
  show "errorLines (calls (executeAutoCommands e wc (Some tm)) w) = [TermWriteln DirectoryNotFound]"
    unfolding t errors_append by (simp add: pre rounds_errors)
qed


text \<open>
  C10, as the code has it. Called with a terminal, \<^verbatim>\<open>executeAutoCommands\<close> returns normally
  in every environment, whatever runs during its awaits (every awaited promise settling).
  A failed read of the directory is caught by the inner handler, which logs the retry to
  the console and pauses: no line of the terminal reports it, unless all 50 attempts fail,
  when the one line "directory not found" is written. An error raised by the command
  sequence (a spawn or an awaited exit that rejects) is caught by the outer handler, given
  to \<^verbatim>\<open>console.error\<close> and written to the terminal as the one error line of the run.
  When the command sequence raises no error, the only line of the terminal that reports a
  failure is the one for a nonzero exit code of the installation.
  Called with null for the terminal, the function throws: its first line fails with a
  \<^verbatim>\<open>TypeError\<close>, the outer handler gives that to \<^verbatim>\<open>console.error\<close> and fails in turn on the
  line it writes, and the error leaves the function.
\<close>

theorem executeAutoCommands_catches_with_terminal:
  "(\<forall>tm. t = Some tm \<longrightarrow>
      fst (executeAutoCommands e wc t w) = Inr () \<and>
      (\<forall>k. k < 50 \<and> completed (readdir e k) \<and> (\<forall>j<k. \<not> completed (readdir e j)) \<longrightarrow>
         retryLogs (calls (executeAutoCommands e wc t) w) = k \<and>
         loggedErrors (calls (executeAutoCommands e wc t) w) =
           (case commandError e of None \<Rightarrow> [] | Some err \<Rightarrow> [err]) \<and>
         (\<forall>err. commandError e = Some err \<longrightarrow>
            errorLines (calls (executeAutoCommands e wc t) w) =
              [TermWriteln (AutoStartFailed err)]) \<and>
         (commandError e = None \<longrightarrow>
            errorLines (calls (executeAutoCommands e wc t) w) =
              (case spawn e ''pnpm'' [''install''] (Cwd ''/react'') of
                 Inl err \<Rightarrow> []
               | Inr p1 \<Rightarrow>
                   (case exit e p1 of
                      Inl err \<Rightarrow> []
                    | Inr exitCode \<Rightarrow>
                        if exitCode \<noteq> 0 then [TermWriteln (CommandFailed exitCode)] else [])))) \<and>
      ((\<forall>j<50. \<not> completed (readdir e j)) \<longrightarrow>
         retryLogs (calls (executeAutoCommands e wc t) w) = 50 \<and>
         loggedErrors (calls (executeAutoCommands e wc t) w) = [] \<and>
         errorLines (calls (executeAutoCommands e wc t) w) = [TermWriteln DirectoryNotFound])) \<and>
   (t = None \<longrightarrow>
      fst (executeAutoCommands e wc t w) = Inl (JsError ''TypeError'') \<and>
      calls (executeAutoCommands e wc t) w = [ConsoleError (JsError ''TypeError'')])"
proof (cases t)
  case None
  show ?thesis
    unfolding None by (simp add: executeAutoCommands_null calls_def)
next
  case (Some tm)
  show ?thesis
    unfolding Some
    using errors_with_terminal[where e = e and wc = wc and tm = tm and w = w]
    by simp
qed

theorem executeAutoCommands_catches_with_terminal_witness:
  "fst (executeAutoCommands noDevEnv 0 (Some \<lparr>cols = 80, rows = 24\<rparr>) mountedPanel) = Inr () \<and>
   retryLogs (calls (executeAutoCommands noDevEnv 0 (Some \<lparr>cols = 80, rows = 24\<rparr>)) mountedPanel) = 2 \<and>
   loggedErrors (calls (executeAutoCommands noDevEnv 0 (Some \<lparr>cols = 80, rows = 24\<rparr>)) mountedPanel) =
     [JsError ''EAGAIN''] \<and>
   errorLines (calls (executeAutoCommands noDevEnv 0 (Some \<lparr>cols = 80, rows = 24\<rparr>)) mountedPanel) =
     [TermWriteln (AutoStartFailed (JsError ''EAGAIN''))] \<and>
   errorLines (calls (executeAutoCommands missingDirEnv 0 (Some \<lparr>cols = 80, rows = 24\<rparr>))
     mountedPanel) = [TermWriteln DirectoryNotFound] \<and>
   errorLines (calls (executeAutoCommands failingInstallEnv 0 (Some \<lparr>cols = 80, rows = 24\<rparr>))
     mountedPanel) = [TermWriteln (CommandFailed 1)] \<and>
   fst (executeAutoCommands noDevEnv 0 None mountedPanel) = Inl (JsError ''TypeError'')"
proof -
  let ?t = "Some \<lparr>cols = 80, rows = 24\<rparr>"
  have found': "(2::nat) < 50 \<and> completed (readdir (failingInstallEnv :: panel panel_env) 2) \<and>
      (\<forall>j<2. \<not> completed (readdir (failingInstallEnv :: panel panel_env) j))"
    by (simp add: failingInstallEnv_def readyEnv_def completed_def)
  have exits: "commandError (failingInstallEnv :: panel panel_env) = None"
    "spawn (failingInstallEnv :: panel panel_env) ''pnpm'' [''install''] (Cwd ''/react'') = Inr 2"
    "exit (failingInstallEnv :: panel panel_env) 2 = Inr 1"
    by (simp_all add: commandError_def failingInstallEnv_def readyEnv_def)
  note failing = executeAutoCommands_catches_with_terminal
    [where e = failingInstallEnv and wc = 0 and t = ?t and w = mountedPanel]
  from failing found' exits(1)
  have "errorLines (calls (executeAutoCommands failingInstallEnv 0 ?t) mountedPanel) =
      (case spawn (failingInstallEnv :: panel panel_env) ''pnpm'' [''install''] (Cwd ''/react'') of
         Inl err \<Rightarrow> []
       | Inr p1 \<Rightarrow>
           (case exit (failingInstallEnv :: panel panel_env) p1 of
              Inl err \<Rightarrow> []
            | Inr exitCode \<Rightarrow>
                if exitCode \<noteq> 0 then [TermWriteln (CommandFailed exitCode)] else []))"
    by blast
  then have nonzero: "errorLines (calls (executeAutoCommands failingInstallEnv 0 ?t) mountedPanel) =
      [TermWriteln (CommandFailed 1)]"
    by (simp add: exits)
  have found: "(2::nat) < 50 \<and> completed (readdir (noDevEnv :: panel panel_env) 2) \<and>
      (\<forall>j<2. \<not> completed (readdir (noDevEnv :: panel panel_env) j))"
    by (simp add: noDevEnv_def readyEnv_def completed_def)
  have err: "commandError (noDevEnv :: panel panel_env) = Some (JsError ''EAGAIN'')"
    by (simp add: commandError_def noDevEnv_def readyEnv_def)
  have missing: "\<forall>j<50. \<not> completed (readdir (missingDirEnv :: panel panel_env) j)"
    by (simp add: missingDirEnv_def completed_def)
  note noDev = executeAutoCommands_catches_with_terminal
    [where e = noDevEnv and wc = 0 and t = ?t and w = mountedPanel]
  note absent = executeAutoCommands_catches_with_terminal
    [where e = missingDirEnv and wc = 0 and t = ?t and w = mountedPanel]
  note null = executeAutoCommands_catches_with_terminal
    [where e = noDevEnv and wc = 0 and t = None and w = mountedPanel]
  from noDev found
  have "fst (executeAutoCommands noDevEnv 0 ?t mountedPanel) = Inr () \<and>
      retryLogs (calls (executeAutoCommands noDevEnv 0 ?t) mountedPanel) = 2 \<and>
      loggedErrors (calls (executeAutoCommands noDevEnv 0 ?t) mountedPanel) =
        (case commandError (noDevEnv :: panel panel_env) of None \<Rightarrow> [] | Some err \<Rightarrow> [err]) \<and>
      (\<forall>err. commandError (noDevEnv :: panel panel_env) = Some err \<longrightarrow>
         errorLines (calls (executeAutoCommands noDevEnv 0 ?t) mountedPanel) =
           [TermWriteln (AutoStartFailed err)])"
    by blast
  moreover from absent missing
  have "errorLines (calls (executeAutoCommands missingDirEnv 0 ?t) mountedPanel) =
      [TermWriteln DirectoryNotFound]"
    by blast
  moreover from null
  have "fst (executeAutoCommands noDevEnv 0 None mountedPanel) = Inl (JsError ''TypeError'')"
    by blast
  ultimately show ?thesis using err nonzero by simp
qed

text \<open>
  The claim as it was stated fails twice. Called with null for the terminal, the function
  throws. And where a read of the directory is rejected and a later one succeeds, the
  error is raised during the wait and no error line is ever written.
\<close>

theorem executeAutoCommands_throws_or_hides:
  "fst (executeAutoCommands readyEnv 0 None mountedPanel) = Inl (JsError ''TypeError'') \<and>
   readdir (readyEnv :: panel panel_env) 0 = Inl (JsError ''ENOENT'') \<and>
   Readdir 0 ''/react'' \<in>
     set (calls (executeAutoCommands readyEnv 0 (Some \<lparr>cols = 80, rows = 24\<rparr>)) mountedPanel) \<and>
   errorLines (calls (executeAutoCommands readyEnv 0 (Some \<lparr>cols = 80, rows = 24\<rparr>)) mountedPanel) = []"
  by (simp add: calls_executeAutoCommands autoCalls_def firstReady_readyEnv commandCalls_def
        errorLines_def retryRound_def executeAutoCommands_null) (simp add: readyEnv_def)

section \<open>The panel: wiring, resizing, teardown\<close>

text \<open>What an action built from these parts leaves as it was.\<close>


lemma andThen_kept:
  assumes "\<And>w. g (snd (m w)) = g w" "\<And>x w. g (snd (f x w)) = g w"
  shows "g (snd (andThen m f w)) = g w"
proof (cases "m w")
  case (Pair r w1)
  with assms(1)[of w] have "g w1 = g w" by simp
  with Pair assms(2) show ?thesis
    by (cases r) (simp_all add: andThen_def)
qed

lemma tryCatch_kept:
  assumes "\<And>w. g (snd (m w)) = g w" "\<And>err w. g (snd (h err w)) = g w"
  shows "g (snd (tryCatch m h w)) = g w"
proof (cases "m w")
  case (Pair r w1)
  with assms(1)[of w] have "g w1 = g w" by simp
  with Pair assms(2) show ?thesis
    by (cases r) (simp_all add: tryCatch_def)
qed

lemma writeln_kept:
  "(\<And>q t. g (q\<lparr>trace := t\<rparr>) = g q) \<Longrightarrow> g (snd (writeln t msg w)) = g w"
  by (cases t) (simp_all add: writeln_def throw_def emit_def)

lemma executeAutoCommands_kept:
  assumes kept: "\<And>ev q. g (meanwhile e ev q) = g q" "\<And>q t. g (q\<lparr>trace := t\<rparr>) = g q"
  shows "g (snd (executeAutoCommands e wc t w)) = g w"
  unfolding executeAutoCommands_def
proof (rule tryCatch_kept[where g = g], goal_cases)
  case (1 w)
  show ?case
  proof (rule andThen_kept[where g = g], goal_cases)
    case (1 w)
    show ?case by (rule writeln_kept) (rule kept)
  next
    case (2 x w)
    show ?case
    proof (rule andThen_kept[where g = g], goal_cases)
      case (1 w)
      show ?case by (rule waitForReactDir_kept) (rule kept)+
    next
      case (2 found w)
      show ?case
      proof (cases found)
        case False
        then show ?thesis by (simp add: writeln_kept kept)
      next
        case True
        have "g (snd (andThen (writeln t AutoStartBegins)
                (\<lambda>_. andThen (runCommands e wc t commands)
                   (\<lambda>finished. if finished then writeln t AutoStartComplete else ret ())) w)) = g w"
        proof (rule andThen_kept[where g = g], goal_cases)
          case (1 w)
          show ?case by (rule writeln_kept) (rule kept)
        next
          case (2 x w)
          show ?case
          proof (rule andThen_kept[where g = g], goal_cases)
            case (1 w)
            show ?case by (rule runCommands_kept) (rule kept)+
          next
            case (2 finished w)
            show ?case by (cases finished) (simp_all add: writeln_kept kept ret_def)
          qed
        qed
        with True show ?thesis by (simp del: runCommands.simps)
      qed
    qed
  qed
next
  case (2 err w)
  show ?case
  proof (rule andThen_kept[where g = g], goal_cases)
    case (1 w)
    show ?case by (simp add: emit_def kept)
  next
    case (2 x w)
    show ?case by (rule writeln_kept) (rule kept)
  qed
qed

lemma staysMountedD:
  "staysMounted e \<Longrightarrow> (terminal (meanwhile e ev p) = None) = (terminal p = None)"
  "staysMounted e \<Longrightarrow> terminalRef (meanwhile e ev p) = terminalRef p"
  by (simp_all add: staysMounted_def)

lemma executeAutoCommands_mounted:
  assumes "staysMounted e"
  shows "(terminal (snd (executeAutoCommands e wc t p)) = None) = (terminal p = None)"
  by (rule executeAutoCommands_kept[where g = "\<lambda>p. terminal p = None"])
     (simp_all add: staysMountedD[OF assms])

lemma executeAutoCommands_mounted':
  assumes "staysMounted e"
  shows "(\<exists>y. terminal (snd (executeAutoCommands e wc t p)) = Some y) =
         (\<exists>y. terminal p = Some y)"
  using executeAutoCommands_mounted[OF assms, of wc t p] by (simp flip: not_None_eq)

lemmas auto_simps = executeAutoCommands_closed[THEN conjunct1]
  executeAutoCommands_closed[THEN conjunct2]

lemma init_closed:
  assumes "modulesLoad e" "staysMounted e" "terminalRef p" "terminal p = None"
    "spawn e ''jsh'' [] (shellOptions e) = Inr sh"
  shows "fst (init e (Some wc) p) = Inr () \<and>
    trace (snd (init e (Some wc) p)) =
      trace p @ mountCalls @ [Spawn wc ''jsh'' [] (shellOptions e)] @ wiringCalls sh @
      autoCalls e wc \<and>
    terminal (snd (init e (Some wc) p)) \<noteq> None"
  using assms
  by (cases "proposeDimensions e")
     (auto simp: init_def fit_def refit_def run_simps fittedSize_def auto_simps
        executeAutoCommands_mounted executeAutoCommands_mounted'
        modulesLoad_def mountCalls_def wiringCalls_def shellOptions_def staysMountedD
        split: option.splits)

lemma init_spawn_fails:
  assumes "modulesLoad e" "staysMounted e" "terminalRef p" "terminal p = None"
    "spawn e ''jsh'' [] (shellOptions e) = Inl err"
  shows "fst (init e (Some wc) p) = Inl err \<and>
    trace (snd (init e (Some wc) p)) =
      trace p @ mountCalls @ [Spawn wc ''jsh'' [] (shellOptions e)]"
  using assms
  by (cases "proposeDimensions e")
     (auto simp: init_def fit_def refit_def run_simps fittedSize_def modulesLoad_def mountCalls_def
        shellOptions_def staysMountedD)

lemma init_order:
  "take (length (beforeShell (calls (init e inst) p))) mountCalls =
     beforeShell (calls (init e inst) p)"
proof (cases "modulesLoad e")
  case False
  then show ?thesis
    by (cases "importModule e ''xterm''"; cases "importModule e ''xterm-addon-fit''";
        cases "importModule e ''xterm-addon-web-links''";
        cases "importModule e ''xterm-addon-webgl''")
       (simp_all add: modulesLoad_def calls_def init_def run_simps mountCalls_def
          beforeShell_def)
next
  case True
  then have loaded: "importModule e ''xterm'' = Inr ()" "importModule e ''xterm-addon-fit'' = Inr ()"
    "importModule e ''xterm-addon-web-links'' = Inr ()" "importModule e ''xterm-addon-webgl'' = Inr ()"
    by (simp_all add: modulesLoad_def)
  show ?thesis
  proof (cases inst)
    case None
    with loaded show ?thesis
      by (simp add: calls_def init_def run_simps mountCalls_def beforeShell_def ret_def)
  next
    case (Some wc)
    show ?thesis
    proof (cases "spawn e ''jsh'' [] (shellOptions e)")
      case (Inl err)
      with loaded Some show ?thesis
        by (cases "proposeDimensions e")
           (auto simp: calls_def init_def fit_def refit_def run_simps mountCalls_def
              beforeShell_def ret_def shellOptions_def fittedSize_def)
    next
      case (Inr sh)
      with loaded Some show ?thesis
        by (cases "proposeDimensions e")
           (auto simp: calls_def init_def fit_def refit_def run_simps mountCalls_def
              beforeShell_def ret_def shellOptions_def fittedSize_def
              executeAutoCommands_null auto_simps split: option.splits)
    qed
  qed
qed


lemma pipedSinks_append: "pipedSinks proc (xs @ ys) = pipedSinks proc xs @ pipedSinks proc ys"
  by (induction proc xs rule: pipedSinks.induct) simp_all

lemma dataListeners_append: "dataListeners (xs @ ys) = dataListeners xs @ dataListeners ys"
  by (induction xs rule: dataListeners.induct) simp_all

lemma rounds_unwired:
  "pipedSinks proc (concat (replicate n (retryRound wc))) = []"
  "dataListeners (concat (replicate n (retryRound wc))) = []"
  by (induction n) (simp_all add: pipedSinks_append dataListeners_append retryRound_def)

lemma autoCalls_unwired:
  "dataListeners (autoCalls e wc) = []"
  "spawn e ''pnpm'' [''install''] (Cwd ''/react'') \<noteq> Inr sh \<Longrightarrow>
   spawn e ''pnpm'' [''dev''] (Cwd ''/react'') \<noteq> Inr sh \<Longrightarrow>
   pipedSinks sh (autoCalls e wc) = []"
  by (auto simp: autoCalls_def commandCalls_def caught_def pipedSinks_append dataListeners_append
        rounds_unwired split: option.splits sum.splits)

lemma outputChunk_closed:
  "pipedSinks sh (trace q) = [WriteToTerminalVariable] \<Longrightarrow>
   outputChunk sh chunk q =
     (Inr (), if terminal q = None then q else q\<lparr>trace := trace q @ [TermWrite chunk]\<rparr>)"
  by (simp add: outputChunk_def run_simps emit_def ret_def split: option.splits)

lemma dataEvent_closed:
  "dataListeners (trace q) = [sh] \<Longrightarrow>
   dataEvent d q = (Inr (), q\<lparr>trace := trace q @ [InputWrite sh d]\<rparr>)"
  by (simp add: dataEvent_def onData_def run_simps emit_def ret_def)

lemma outputChunks_written:
  "pipedSinks sh (trace q) = [WriteToTerminalVariable] \<Longrightarrow> terminal q \<noteq> None \<Longrightarrow>
   forEach chunks (outputChunk sh) q = (Inr (), q\<lparr>trace := trace q @ map TermWrite chunks\<rparr>)"
proof (induction chunks arbitrary: q)
  case Nil
  then show ?case by (simp add: ret_def)
next
  case (Cons chunk chunks)
  let ?q = "q\<lparr>trace := trace q @ [TermWrite chunk]\<rparr>"
  have one: "outputChunk sh chunk q = (Inr (), ?q)"
    using Cons.prems by (simp add: outputChunk_closed)
  have "pipedSinks sh (trace ?q) = [WriteToTerminalVariable]" "terminal ?q \<noteq> None"
    using Cons.prems by (simp_all add: pipedSinks_append)
  from Cons.IH[OF this] one show ?case
    by (simp add: andThen_def)
qed

lemma dataEvents_written:
  "dataListeners (trace q) = [sh] \<Longrightarrow>
   forEach ds dataEvent q = (Inr (), q\<lparr>trace := trace q @ map (InputWrite sh) ds\<rparr>)"
proof (induction ds arbitrary: q)
  case Nil
  then show ?case by (simp add: ret_def)
next
  case (Cons d ds)
  let ?q = "q\<lparr>trace := trace q @ [InputWrite sh d]\<rparr>"
  have one: "dataEvent d q = (Inr (), ?q)"
    using Cons.prems by (simp add: dataEvent_closed)
  have "dataListeners (trace ?q) = [sh]"
    using Cons.prems by (simp add: dataListeners_append)
  from Cons.IH[OF this] one show ?case
    by (simp add: andThen_def)
qed

text \<open>
  C5, as the code has it. \<^verbatim>\<open>init\<close> pipes the output of the shell to a sink that writes a
  chunk to the terminal the component's variable holds when the chunk arrives, and writes
  nothing once the variable is null; it registers the listener of the terminal's data
  events, which writes each event to the shell's input, by an optional call that registers
  nothing when the variable is null. So, when \<^verbatim>\<open>init\<close> starts on a mounted node with no
  terminal yet and nothing wired, the modules load, the shell is spawned, and the
  component stays mounted while \<^verbatim>\<open>init\<close> awaits (the cleanup does not run), exactly two
  streams are wired when \<^verbatim>\<open>init\<close> is over: one sink on the shell's output and one listener
  of data events, and then every chunk the shell produces is written to the terminal and
  every data event of the terminal to the shell's input, in their order. Wherever that
  sink is the one piped from the shell's output, a chunk is written to the terminal
  exactly when the variable holds one; wherever that listener is the one registered, a
  data event is written to the shell's input. The processes of the two commands are other
  processes than the shell.
\<close>

theorem shell_streams_wired_while_mounted:
  assumes "modulesLoad e" "staysMounted e" "terminalRef p" "terminal p = None"
    and "spawn e ''jsh'' [] (shellOptions e) = Inr sh"
    and "pipedSinks sh (trace p) = []" "dataListeners (trace p) = []"
    and "spawn e ''pnpm'' [''install''] (Cwd ''/react'') \<noteq> Inr sh"
    and "spawn e ''pnpm'' [''dev''] (Cwd ''/react'') \<noteq> Inr sh"
  shows "pipedSinks sh (trace (snd (init e (Some wc) p))) = [WriteToTerminalVariable] \<and>
         dataListeners (trace (snd (init e (Some wc) p))) = [sh] \<and>
         calls (forEach chunks (outputChunk sh)) (snd (init e (Some wc) p)) = map TermWrite chunks \<and>
         calls (forEach ds dataEvent) (snd (init e (Some wc) p)) = map (InputWrite sh) ds \<and>
         (\<forall>q chunk. pipedSinks sh (trace q) = [WriteToTerminalVariable] \<longrightarrow>
            calls (outputChunk sh chunk) q = (if terminal q = None then [] else [TermWrite chunk])) \<and>
         (\<forall>q d. dataListeners (trace q) = [sh] \<longrightarrow> calls (dataEvent d) q = [InputWrite sh d])"
proof -
  let ?q = "snd (init e (Some wc) p)"
  note closed = init_closed[OF assms(1-5), of wc]
  then have q: "trace ?q = trace p @ mountCalls @ [Spawn wc ''jsh'' [] (shellOptions e)] @
      wiringCalls sh @ autoCalls e wc"
    and mounted: "terminal ?q \<noteq> None"
    by simp_all
  have sinks: "pipedSinks sh (trace ?q) = [WriteToTerminalVariable]"
    unfolding q pipedSinks_append
    by (simp add: assms autoCalls_unwired mountCalls_def wiringCalls_def)
  have listeners: "dataListeners (trace ?q) = [sh]"
    unfolding q dataListeners_append
    by (simp add: assms autoCalls_unwired mountCalls_def wiringCalls_def)
  have chunk: "\<forall>q chunk. pipedSinks sh (trace q) = [WriteToTerminalVariable] \<longrightarrow>
      calls (outputChunk sh chunk) q = (if terminal q = None then [] else [TermWrite chunk])"
    by (simp add: calls_def outputChunk_closed)
  have data: "\<forall>q d. dataListeners (trace q) = [sh] \<longrightarrow> calls (dataEvent d) q = [InputWrite sh d]"
    by (simp add: calls_def dataEvent_closed)
  from chunk data show ?thesis
    by (simp add: sinks listeners calls_def outputChunks_written[OF sinks mounted]
          dataEvents_written[OF listeners])
qed

theorem shell_streams_wired_while_mounted_witness:
  "pipedSinks 1 (trace (snd (init readyEnv (Some 0) mountedPanel))) = [WriteToTerminalVariable] \<and>
   dataListeners (trace (snd (init readyEnv (Some 0) mountedPanel))) = [1] \<and>
   calls (forEach [''a'', ''b''] (outputChunk 1)) (snd (init readyEnv (Some 0) mountedPanel)) =
     [TermWrite ''a'', TermWrite ''b''] \<and>
   calls (forEach [''ls''] dataEvent) (snd (init readyEnv (Some 0) mountedPanel)) =
     [InputWrite 1 ''ls''] \<and>
   calls (outputChunk 1 ''c'')
     (snd (cleanup (Some 0) (snd (init readyEnv (Some 0) mountedPanel)))) = []"
proof -
  let ?q = "snd (init readyEnv (Some 0) mountedPanel)"
  let ?u = "snd (cleanup (Some 0) ?q)"
  have env: "modulesLoad (readyEnv :: panel panel_env)" "staysMounted (readyEnv :: panel panel_env)"
    "spawn (readyEnv :: panel panel_env) ''jsh'' [] (shellOptions (readyEnv :: panel panel_env)) = Inr 1"
    "spawn (readyEnv :: panel panel_env) ''pnpm'' [''install''] (Cwd ''/react'') \<noteq> Inr 1"
    "spawn (readyEnv :: panel panel_env) ''pnpm'' [''dev''] (Cwd ''/react'') \<noteq> Inr 1"
    by (simp_all add: modulesLoad_def staysMounted_def readyEnv_def)
  have start: "terminalRef mountedPanel" "terminal mountedPanel = None"
    "pipedSinks 1 (trace mountedPanel) = []" "dataListeners (trace mountedPanel) = []"
    by (simp_all add: mountedPanel_def)
  note wired = shell_streams_wired_while_mounted[OF env(1,2) start(1,2) env(3) start(3,4) env(4,5),
      where wc = 0 and chunks = "[''a'', ''b'']" and ds = "[''ls'']"]
  have unmounted: "terminal ?u = None"
    "trace ?u = trace ?q @ [FsRm 0 ''/'' True] @
       (case shell ?q of None \<Rightarrow> [] | Some sh \<Rightarrow> [Kill sh]) @ [SetUrl []]"
    by (simp_all add: cleanup_def setUrl_def run_simps emit_def modify_def ret_def
          split: option.splits)
  from wired have sinks: "pipedSinks 1 (trace ?q) = [WriteToTerminalVariable]"
    by blast
  have still: "pipedSinks 1 (trace ?u) = [WriteToTerminalVariable]"
    unfolding unmounted(2) pipedSinks_append sinks by (simp split: option.splits)
  from wired
  have law: "\<And>q chunk. pipedSinks 1 (trace q) = [WriteToTerminalVariable] \<Longrightarrow>
      calls (outputChunk 1 chunk) q = (if terminal q = None then [] else [TermWrite chunk])"
    by blast
  from law[OF still, of "''c''"] unmounted(1) have dropped: "calls (outputChunk 1 ''c'') ?u = []"
    by simp
  from wired have listeners: "dataListeners (trace ?q) = [1]"
    and chunks: "calls (forEach [''a'', ''b''] (outputChunk 1)) ?q = map TermWrite [''a'', ''b'']"
    and events: "calls (forEach [''ls''] dataEvent) ?q = map (InputWrite 1) [''ls'']"
    by blast+
  show ?thesis
    unfolding sinks listeners chunks events dropped by simp
qed

text \<open>
  The claim as it was stated fails when the panel is unmounted while the spawn of the
  shell is pending. The shell is spawned and its output piped, the cleanup has cleared
  the terminal variable meanwhile: no listener of data events is registered, a chunk of
  the shell's output is written nowhere, a data event reaches no one, and \<^verbatim>\<open>init\<close> ends
  with the error of \<^verbatim>\<open>executeAutoCommands\<close>.
\<close>

theorem unmounted_shell_not_wired:
  "fst (init unmountEnv (Some 0) mountedPanel) = Inl (JsError ''TypeError'') \<and>
   shell (snd (init unmountEnv (Some 0) mountedPanel)) = Some 1 \<and>
   pipedSinks 1 (trace (snd (init unmountEnv (Some 0) mountedPanel))) = [WriteToTerminalVariable] \<and>
   dataListeners (trace (snd (init unmountEnv (Some 0) mountedPanel))) = [] \<and>
   calls (outputChunk 1 ''a'') (snd (init unmountEnv (Some 0) mountedPanel)) = [] \<and>
   calls (dataEvent ''ls'') (snd (init unmountEnv (Some 0) mountedPanel)) = []"
  by (simp add: init_def unmountEnv_def readyEnv_def mountedPanel_def cleanup_def setUrl_def
        fit_def refit_def run_simps executeAutoCommands_null emit_def modify_def ret_def calls_def
        outputChunk_def dataEvent_def)



text \<open>
  C8. The cleanup of the effect returns normally. It removes \<^verbatim>\<open>/\<close> recursively on the
  container instance the effect closed over, when there is one, kills the shell process,
  when one was spawned, resets the url of the store to the empty string and clears the
  terminal variable, in this order.
\<close>

theorem cleanup_tears_down:
  "fst (cleanup inst p) = Inr () \<and>
   calls (cleanup inst) p =
     (case inst of None \<Rightarrow> [] | Some wc \<Rightarrow> [FsRm wc ''/'' True]) @
     (case shell p of None \<Rightarrow> [] | Some sh \<Rightarrow> [Kill sh]) @ [SetUrl []] \<and>
   url (snd (cleanup inst p)) = [] \<and>
   terminal (snd (cleanup inst p)) = None"
  by (simp add: cleanup_def setUrl_def run_simps calls_def emit_def modify_def ret_def
      split: option.splits)

theorem cleanup_tears_down_witness:
  "calls (cleanup (Some 0)) wiredPanel = [FsRm 0 ''/'' True, Kill 1, SetUrl []] \<and>
   url (snd (cleanup (Some 0) wiredPanel)) = [] \<and>
   terminal (snd (cleanup (Some 0) wiredPanel)) = None \<and>
   calls (cleanup None) mountedPanel = [SetUrl []]"
  using cleanup_tears_down[of "Some 0" wiredPanel] cleanup_tears_down[of None mountedPanel]
  by (simp add: wiredPanel_def mountedPanel_def)

section \<open>The store: initialization\<close>

lemmas store_simps = initWebContainer_def setInstance_def onServerReady_def run_simps
  emit_def modify_def ret_def

lemma undisturbedD: "undisturbed e \<Longrightarrow> meanwhile e ev w = w"
  by (simp add: undisturbed_def)

text \<open>What one call does, whatever runs during its awaits.\<close>

lemma init_own:
  "case initWebContainer e projectId w of (r, w') \<Rightarrow>
     (r = Inr () \<longrightarrow>
        isInitialized w' \<and> webContainerInstance w' = ownInstance e w \<and>
        last (drop (length (trace w)) (trace w')) = SetInstance (ownInstance e w) True) \<and>
     filter isServerReadyListener (drop (length (trace w)) (trace w')) =
       (if r = Inr () then
          (case ownInstance e w of None \<Rightarrow> [] | Some c \<Rightarrow> [On c ''server-ready''])
        else []) \<and>
     instanceWrites (drop (length (trace w)) (trace w')) =
       (if r = Inr () then [(ownInstance e w, True)] else [])"
  by (simp add: store_simps instanceWrites_def ownInstance_def split: sum.splits option.splits)

lemma init_extends:
  "take (length (trace w)) (trace (snd (initWebContainer e projectId w))) = trace w \<and>
   length (trace w) \<le> length (trace (snd (initWebContainer e projectId w)))"
  by (simp add: store_simps split: sum.splits option.splits)

text \<open>What one call leaves as it was, when nothing else runs during its awaits.\<close>

lemma init_undisturbed:
  "undisturbed e \<Longrightarrow>
   (case initWebContainer e projectId w of (r, w') \<Rightarrow>
     (isInitialized w \<longrightarrow> isInitialized w') \<and>
     (\<forall>c. webContainerInstance w = Some c \<longrightarrow> webContainerInstance w' = Some c) \<and>
     (r \<noteq> Inr () \<longrightarrow>
        isInitialized w' = isInitialized w \<and> webContainerInstance w' = webContainerInstance w))"
  by (simp add: store_simps undisturbedD split: sum.splits option.splits)

lemma init_boots:
  "case initWebContainer e projectId w of (r, w') \<Rightarrow>
     (WebContainerBoot \<in> set (drop (length (trace w)) (trace w')) \<longleftrightarrow>
        completed (getItem e projectId) \<and> \<not> isInitialized w \<and> webContainerInstance w = None) \<and>
     (\<forall>err. getItem e projectId = Inl err \<longrightarrow> r = Inl err) \<and>
     (\<forall>c. webContainerInstance w = Some c \<longrightarrow>
        (\<forall>info projectFileData.
           getItem e projectId = Inr (Some info) \<and> parse e info = Inr projectFileData \<longrightarrow>
           WriteDirByLocal projectFileData (Some c) \<in> set (drop (length (trace w)) (trace w'))))"
  by (simp add: store_simps completed_def split: sum.splits option.splits)

lemma ownInstance_held: "webContainerInstance w = Some c \<Longrightarrow> ownInstance e w = Some c"
  by (simp add: ownInstance_def)

lemma undisturbed_quietEnv: "undisturbed quietEnv" "undisturbed cachedEnv" "undisturbed offlineEnv"
  by (simp_all add: undisturbed_def quietEnv_def cachedEnv_def offlineEnv_def)




text \<open>
  C2, as the code has it. \<^verbatim>\<open>initWebContainer\<close> initializes if not already, after the lookup
  of the cached project: for every call, a container is booted exactly when that lookup,
  which is awaited first, resolves and the store, as the call read it when it started,
  holds no instance and is not marked initialized; when the lookup rejects, the call
  throws with its error. When the store holds an instance, the
  call boots nothing, and every write it makes to the store's instance is that same
  instance: the store holds it after a call that completes, and after any call with
  nothing else running during its awaits; cached project files, when the lookup finds
  them and they parse, are written into that instance.
\<close>

theorem initWebContainer_boots_iff_fresh_after_lookup:
  "(WebContainerBoot \<in> set (calls (initWebContainer e projectId) w) \<longleftrightarrow>
      completed (getItem e projectId) \<and> \<not> isInitialized w \<and> webContainerInstance w = None) \<and>
   (\<forall>err. getItem e projectId = Inl err \<longrightarrow> fst (initWebContainer e projectId w) = Inl err) \<and>
   (\<forall>c. webContainerInstance w = Some c \<longrightarrow>
      WebContainerBoot \<notin> set (calls (initWebContainer e projectId) w) \<and>
      set (instanceWrites (calls (initWebContainer e projectId) w)) \<subseteq> {(Some c, True)} \<and>
      (fst (initWebContainer e projectId w) = Inr () \<longrightarrow>
         webContainerInstance (snd (initWebContainer e projectId w)) = Some c) \<and>
      (undisturbed e \<longrightarrow>
         webContainerInstance (snd (initWebContainer e projectId w)) = Some c) \<and>
      (\<forall>info projectFileData.
         getItem e projectId = Inr (Some info) \<and> parse e info = Inr projectFileData \<longrightarrow>
         WriteDirByLocal projectFileData (Some c) \<in> set (calls (initWebContainer e projectId) w)))"
proof -
  note boots = init_boots[where e = e and projectId = projectId and w = w,
      unfolded case_prod_unfold, folded calls_def]
  note own = init_own[where e = e and projectId = projectId and w = w,
      unfolded case_prod_unfold, folded calls_def]
  note alone = init_undisturbed[where e = e and projectId = projectId and w = w,
      unfolded case_prod_unfold]
  have iff: "WebContainerBoot \<in> set (calls (initWebContainer e projectId) w) \<longleftrightarrow>
      completed (getItem e projectId) \<and> \<not> isInitialized w \<and> webContainerInstance w = None"
    using boots by blast
  have rejected: "\<forall>err. getItem e projectId = Inl err \<longrightarrow>
      fst (initWebContainer e projectId w) = Inl err"
    using boots by blast
  have held: "WebContainerBoot \<notin> set (calls (initWebContainer e projectId) w) \<and>
      set (instanceWrites (calls (initWebContainer e projectId) w)) \<subseteq> {(Some c, True)} \<and>
      (fst (initWebContainer e projectId w) = Inr () \<longrightarrow>
         webContainerInstance (snd (initWebContainer e projectId w)) = Some c) \<and>
      (undisturbed e \<longrightarrow>
         webContainerInstance (snd (initWebContainer e projectId w)) = Some c) \<and>
      (\<forall>info projectFileData.
         getItem e projectId = Inr (Some info) \<and> parse e info = Inr projectFileData \<longrightarrow>
         WriteDirByLocal projectFileData (Some c) \<in> set (calls (initWebContainer e projectId) w))"
    if c: "webContainerInstance w = Some c" for c
  proof (intro conjI)
    show "WebContainerBoot \<notin> set (calls (initWebContainer e projectId) w)"
      using iff c by simp
    show "set (instanceWrites (calls (initWebContainer e projectId) w)) \<subseteq> {(Some c, True)}"
      using own by (auto simp: ownInstance_held[OF c])
    show "fst (initWebContainer e projectId w) = Inr () \<longrightarrow>
        webContainerInstance (snd (initWebContainer e projectId w)) = Some c"
      using own by (simp add: ownInstance_held[OF c])
    show "undisturbed e \<longrightarrow> webContainerInstance (snd (initWebContainer e projectId w)) = Some c"
      using alone c by blast
    show "\<forall>info projectFileData.
        getItem e projectId = Inr (Some info) \<and> parse e info = Inr projectFileData \<longrightarrow>
        WriteDirByLocal projectFileData (Some c) \<in> set (calls (initWebContainer e projectId) w)"
      using boots c by blast
  qed
  from iff rejected held show ?thesis by blast
qed

theorem initWebContainer_boots_iff_fresh_after_lookup_witness:
  "WebContainerBoot \<in> set (calls (initWebContainer cachedEnv ''p'') initialStore) \<and>
   WebContainerBoot \<notin> set (calls (initWebContainer cachedEnv ''p'') markedStore) \<and>
   WebContainerBoot \<notin> set (calls (initWebContainer cachedEnv ''p'') bootedStore) \<and>
   webContainerInstance (snd (initWebContainer cachedEnv ''p'' bootedStore)) = Some 7 \<and>
   WriteDirByLocal ''tree'' (Some 7) \<in> set (calls (initWebContainer cachedEnv ''p'') bootedStore)"
proof -
  have cached: "completed (getItem (cachedEnv :: world store_env) ''p'')"
    "getItem (cachedEnv :: world store_env) ''p'' = Inr (Some ''cached'') \<and>
     parse (cachedEnv :: world store_env) ''cached'' = Inr ''tree''"
    by (simp_all add: cachedEnv_def completed_def)
  have fresh: "\<not> isInitialized initialStore \<and> webContainerInstance initialStore = None"
    by (simp add: initialStore_def)
  have marked: "isInitialized markedStore"
    by (simp add: markedStore_def setInitialized_def modify_def initialStore_def)
  have held: "webContainerInstance bootedStore = Some 7"
    by (simp add: bootedStore_def)
  note first = initWebContainer_boots_iff_fresh_after_lookup
    [where e = cachedEnv and projectId = "''p''" and w = initialStore]
  note stuck = initWebContainer_boots_iff_fresh_after_lookup
    [where e = cachedEnv and projectId = "''p''" and w = markedStore]
  note again = initWebContainer_boots_iff_fresh_after_lookup
    [where e = cachedEnv and projectId = "''p''" and w = bootedStore]
  from first cached(1) fresh
  have "WebContainerBoot \<in> set (calls (initWebContainer cachedEnv ''p'') initialStore)"
    by blast
  moreover from stuck marked
  have "WebContainerBoot \<notin> set (calls (initWebContainer cachedEnv ''p'') markedStore)"
    by blast
  moreover from again held cached(2) undisturbed_quietEnv(2)
  have "WebContainerBoot \<notin> set (calls (initWebContainer cachedEnv ''p'') bootedStore) \<and>
      webContainerInstance (snd (initWebContainer cachedEnv ''p'' bootedStore)) = Some 7 \<and>
      WriteDirByLocal ''tree'' (Some 7) \<in> set (calls (initWebContainer cachedEnv ''p'') bootedStore)"
    by blast
  ultimately show ?thesis by simp
qed

text \<open>
  The claim as it was stated fails where the lookup of the cached project rejects: the
  store holds no instance and is not marked initialized, and the call throws before it
  boots anything.
\<close>

theorem fresh_store_not_booted_when_lookup_rejects:
  "\<not> isInitialized initialStore \<and> webContainerInstance initialStore = None \<and>
   fst (initWebContainer offlineEnv ''p'' initialStore) = Inl (JsError ''storage'') \<and>
   WebContainerBoot \<notin> set (calls (initWebContainer offlineEnv ''p'') initialStore)"
  by (simp add: store_simps offlineEnv_def quietEnv_def initialStore_def calls_def)

text \<open>Calls awaited one after the other, with nothing else running during their awaits.\<close>

lemma init_step:
  assumes alone: "undisturbed e"
  shows "case initWebContainer e projectId w of (r, w') \<Rightarrow>
      serverReadyListeners (drop (length (trace w)) (trace w')) =
        (if webContainerInstance w = None \<and> isInitialized w then 0
         else if completed r then 1 else 0) \<and>
      (\<forall>c. On c ''server-ready'' \<in> set (drop (length (trace w)) (trace w')) \<longrightarrow>
         webContainerInstance w' = Some c) \<and>
      ((webContainerInstance w' = None \<and> isInitialized w') \<longleftrightarrow>
         (webContainerInstance w = None \<and> isInitialized w)) \<and>
      (\<forall>c. webContainerInstance w = Some c \<longrightarrow> webContainerInstance w' = Some c)"
  using alone
  by (cases "webContainerInstance w")
     (simp_all add: store_simps undisturbedD serverReadyListeners_def completed_def
        split: sum.splits option.splits)

lemma awaitedCalls_listeners:
  assumes "\<forall>c\<in>set cs. undisturbed (fst c)"
  shows "\<exists>added.
      trace (snd (awaitedCalls cs w)) = trace w @ added \<and>
      serverReadyListeners added =
        (if webContainerInstance w = None \<and> isInitialized w then 0
         else length (filter completed (fst (awaitedCalls cs w)))) \<and>
      (\<forall>c. On c ''server-ready'' \<in> set added \<longrightarrow>
         webContainerInstance (snd (awaitedCalls cs w)) = Some c) \<and>
      (\<forall>c. webContainerInstance w = Some c \<longrightarrow>
         webContainerInstance (snd (awaitedCalls cs w)) = Some c)"
  using assms
proof (induction cs arbitrary: w)
  case Nil
  then show ?case by (simp add: serverReadyListeners_def)
next
  case (Cons a cs)
  obtain e projectId where a: "a = (e, projectId)" by (cases a)
  obtain r w1 where first: "initWebContainer e projectId w = (r, w1)"
    by (cases "initWebContainer e projectId w")
  from Cons.prems a have alone: "undisturbed e" and rest: "\<forall>c\<in>set cs. undisturbed (fst c)"
    by simp_all
  define own where "own = drop (length (trace w)) (trace w1)"
  from init_extends[where w = w and e = e and projectId = projectId] first have w1: "trace w1 = trace w @ own"
    unfolding own_def by (metis append_take_drop_id snd_conv)
  from init_step[OF alone, where projectId = projectId and w = w] first
  have n1: "serverReadyListeners own =
        (if webContainerInstance w = None \<and> isInitialized w then 0
         else if completed r then 1 else 0)"
    and on1: "\<forall>c. On c ''server-ready'' \<in> set own \<longrightarrow> webContainerInstance w1 = Some c"
    and stuck: "(webContainerInstance w1 = None \<and> isInitialized w1) \<longleftrightarrow>
         (webContainerInstance w = None \<and> isInitialized w)"
    and kept: "\<forall>c. webContainerInstance w = Some c \<longrightarrow> webContainerInstance w1 = Some c"
    unfolding own_def by simp_all
  from Cons.IH[OF rest, of w1] obtain added where
    t: "trace (snd (awaitedCalls cs w1)) = trace w1 @ added"
    and n: "serverReadyListeners added =
        (if webContainerInstance w1 = None \<and> isInitialized w1 then 0
         else length (filter completed (fst (awaitedCalls cs w1))))"
    and on: "\<forall>c. On c ''server-ready'' \<in> set added \<longrightarrow>
         webContainerInstance (snd (awaitedCalls cs w1)) = Some c"
    and later: "\<forall>c. webContainerInstance w1 = Some c \<longrightarrow>
         webContainerInstance (snd (awaitedCalls cs w1)) = Some c"
    by blast
  have run: "awaitedCalls (a # cs) w = (r # fst (awaitedCalls cs w1), snd (awaitedCalls cs w1))"
    by (simp add: a first case_prod_unfold)
  have "trace (snd (awaitedCalls (a # cs) w)) = trace w @ (own @ added)"
    by (simp add: run t w1)
  moreover have "serverReadyListeners (own @ added) =
      (if webContainerInstance w = None \<and> isInitialized w then 0
       else length (filter completed (fst (awaitedCalls (a # cs) w))))"
    unfolding run using n1 n stuck by (simp add: serverReadyListeners_def)
  moreover have "\<forall>c. On c ''server-ready'' \<in> set (own @ added) \<longrightarrow>
      webContainerInstance (snd (awaitedCalls (a # cs) w)) = Some c"
    unfolding run using on1 on later by auto
  moreover have "\<forall>c. webContainerInstance w = Some c \<longrightarrow>
      webContainerInstance (snd (awaitedCalls (a # cs) w)) = Some c"
    unfolding run using kept later by auto
  ultimately show ?case by blast
qed

text \<open>
  C1, as the code has it. A call of \<^verbatim>\<open>initWebContainer\<close> that completes registers one
  listener of \<^verbatim>\<open>'server-ready'\<close> on the instance it works on, in the branch that boots and in
  the other one alike, whatever runs during its awaits; it registers none when the store
  it read was marked initialized and held no instance, and a call that throws registers
  none. Over any sequence of calls from any store, each awaited before the next is made
  and with nothing else running during their awaits, the listeners registered are as many
  as the calls that completed (none at all from a store marked initialized that holds no
  instance), and all of them are on the instance the store holds in the end: repeated
  calls do accumulate listeners.
\<close>

theorem listeners_one_per_completed_call:
  "filter isServerReadyListener (calls (initWebContainer e projectId) w) =
     (if fst (initWebContainer e projectId w) = Inr () then
        (case ownInstance e w of None \<Rightarrow> [] | Some c \<Rightarrow> [On c ''server-ready''])
      else []) \<and>
   ((\<forall>c\<in>set cs. undisturbed (fst c)) \<longrightarrow>
      serverReadyListeners (drop (length (trace w)) (trace (snd (awaitedCalls cs w)))) =
        (if webContainerInstance w = None \<and> isInitialized w then 0
         else length (filter completed (fst (awaitedCalls cs w)))) \<and>
      (\<forall>c. On c ''server-ready'' \<in>
             set (drop (length (trace w)) (trace (snd (awaitedCalls cs w)))) \<longrightarrow>
         webContainerInstance (snd (awaitedCalls cs w)) = Some c))"
proof (intro conjI impI)
  show "filter isServerReadyListener (calls (initWebContainer e projectId) w) =
     (if fst (initWebContainer e projectId w) = Inr () then
        (case ownInstance e w of None \<Rightarrow> [] | Some c \<Rightarrow> [On c ''server-ready''])
      else [])"
    using init_own[where e = e and projectId = projectId and w = w]
    by (simp add: case_prod_unfold calls_def)
next
  assume "\<forall>c\<in>set cs. undisturbed (fst c)"
  from awaitedCalls_listeners[OF this, of w] obtain added where
    t: "trace (snd (awaitedCalls cs w)) = trace w @ added"
    and n: "serverReadyListeners added =
        (if webContainerInstance w = None \<and> isInitialized w then 0
         else length (filter completed (fst (awaitedCalls cs w))))"
    and on: "\<forall>c. On c ''server-ready'' \<in> set added \<longrightarrow>
         webContainerInstance (snd (awaitedCalls cs w)) = Some c"
    by blast
  have added: "drop (length (trace w)) (trace (snd (awaitedCalls cs w))) = added"
    by (simp add: t)
  show "serverReadyListeners (drop (length (trace w)) (trace (snd (awaitedCalls cs w)))) =
        (if webContainerInstance w = None \<and> isInitialized w then 0
         else length (filter completed (fst (awaitedCalls cs w))))"
    unfolding added by (rule n)
  show "\<forall>c. On c ''server-ready'' \<in>
             set (drop (length (trace w)) (trace (snd (awaitedCalls cs w)))) \<longrightarrow>
         webContainerInstance (snd (awaitedCalls cs w)) = Some c"
    unfolding added by (rule on)
qed

theorem listeners_one_per_completed_call_witness:
  "filter isServerReadyListener (calls (initWebContainer quietEnv ''p'') markedStore) = [] \<and>
   fst (initWebContainer quietEnv ''p'' markedStore) = Inr () \<and>
   filter isServerReadyListener (calls (initWebContainer quietEnv ''p'') bootedStore) =
     [On 7 ''server-ready''] \<and>
   serverReadyListeners
     (trace (snd (awaitedCalls [(cachedEnv, ''p''), (offlineEnv, ''p''), (quietEnv, ''q'')]
        initialStore))) = 2 \<and>
   webContainerInstance
     (snd (awaitedCalls [(cachedEnv, ''p''), (offlineEnv, ''p''), (quietEnv, ''q'')]
        initialStore)) = Some 7"
proof -
  let ?cs = "[(cachedEnv, ''p''), (offlineEnv, ''p''), (quietEnv, ''q'')]"
  have marked: "fst (initWebContainer quietEnv ''p'' markedStore) = Inr ()"
    "ownInstance (quietEnv :: world store_env) markedStore = None"
    by (simp_all add: store_simps ownInstance_def quietEnv_def markedStore_def
          setInitialized_def initialStore_def)
  have booted: "fst (initWebContainer quietEnv ''p'' bootedStore) = Inr ()"
    "ownInstance (quietEnv :: world store_env) bootedStore = Some 7"
    by (simp_all add: store_simps ownInstance_def quietEnv_def bootedStore_def)
  have alone: "\<forall>c\<in>set ?cs. undisturbed (fst c)"
    by (simp add: undisturbed_quietEnv)
  have start: "trace initialStore = []" "\<not> isInitialized initialStore"
    by (simp_all add: initialStore_def)
  have results: "fst (awaitedCalls ?cs initialStore) = [Inr (), Inl (JsError ''storage''), Inr ()]"
    by (simp add: store_simps cachedEnv_def offlineEnv_def quietEnv_def initialStore_def)
  have registered: "On 7 ''server-ready'' \<in> set (trace (snd (awaitedCalls ?cs initialStore)))"
    by (simp add: store_simps cachedEnv_def offlineEnv_def quietEnv_def initialStore_def)
  note stuck = listeners_one_per_completed_call
    [where e = quietEnv and projectId = "''p''" and w = markedStore and cs = "[]"]
  note held = listeners_one_per_completed_call
    [where e = quietEnv and projectId = "''p''" and w = bootedStore and cs = "[]"]
  note run = listeners_one_per_completed_call
    [where e = quietEnv and projectId = "''p''" and w = initialStore and cs = ?cs]
  from stuck
  have "filter isServerReadyListener (calls (initWebContainer quietEnv ''p'') markedStore) = []"
    unfolding marked by simp
  moreover from held
  have "filter isServerReadyListener (calls (initWebContainer quietEnv ''p'') bootedStore) =
      [On 7 ''server-ready'']"
    unfolding booted by simp
  moreover from run alone
  have counted: "serverReadyListeners
        (drop (length (trace initialStore)) (trace (snd (awaitedCalls ?cs initialStore)))) =
      (if webContainerInstance initialStore = None \<and> isInitialized initialStore then 0
       else length (filter completed (fst (awaitedCalls ?cs initialStore))))"
    and one: "\<forall>c. On c ''server-ready'' \<in>
        set (drop (length (trace initialStore)) (trace (snd (awaitedCalls ?cs initialStore)))) \<longrightarrow>
      webContainerInstance (snd (awaitedCalls ?cs initialStore)) = Some c"
    by blast+
  from counted
  have "serverReadyListeners (trace (snd (awaitedCalls ?cs initialStore))) = 2"
    unfolding results by (simp add: start completed_def del: awaitedCalls.simps)
  moreover from one registered
  have "webContainerInstance (snd (awaitedCalls ?cs initialStore)) = Some 7"
    by (simp add: start del: awaitedCalls.simps)
  ultimately show ?thesis using marked(1) by (simp del: awaitedCalls.simps)
qed

text \<open>
  The claim as it was stated, one listener in total over any sequence of calls, fails at
  the second call: it finds the instance and registers a second listener on it.
\<close>

theorem listeners_accumulate:
  "filter isServerReadyListener
     (trace (snd (awaitedCalls [(quietEnv, ''p''), (quietEnv, ''p'')] initialStore))) =
   [On 0 ''server-ready'', On 0 ''server-ready'']"
  by (simp add: store_simps quietEnv_def initialStore_def)

section \<open>The order of the lifecycle\<close>

lemma init_fresh:
  assumes "\<not> isInitialized w" "webContainerInstance w = None"
  shows "case initWebContainer se projectId w of (r, w') \<Rightarrow>
     (r \<noteq> Inr () \<longrightarrow> instanceWrites (drop (length (trace w)) (trace w')) = []) \<and>
     (undisturbed se \<and> r \<noteq> Inr () \<longrightarrow> \<not> isInitialized w' \<and> webContainerInstance w' = None) \<and>
     (\<forall>projectInfo c. r = Inr () \<and> getItem se projectId = Inr projectInfo \<and> boot se = Inr c \<longrightarrow>
        drop (length (trace w)) (trace w') =
          [GetItem projectId, ConsoleLog ''projectInfo'', WebContainerBoot,
           ConsoleLog ''newWebContainerInstance''] @
          (case projectInfo of
             None \<Rightarrow> []
           | Some info \<Rightarrow>
               [JsonParse info, ConsoleLog ''projectFileData'',
                WriteDirByLocal (projr (parse se info)) (Some c)]) @
          (case curDirectory se of
             None \<Rightarrow> []
           | Some dir \<Rightarrow> [ConsoleLog ''curDirectory'', WriteDirByLocal dir (Some c)]) @
          [On c ''server-ready'', SetInstance (Some c) True] \<and>
        isInitialized w' \<and> webContainerInstance w' = Some c)"
proof -
  have own: "case initWebContainer se projectId w of (r, w') \<Rightarrow>
     (r \<noteq> Inr () \<longrightarrow> instanceWrites (drop (length (trace w)) (trace w')) = [])"
    using init_own[where e = se and projectId = projectId and w = w]
    by (simp add: case_prod_unfold)
  have alone: "case initWebContainer se projectId w of (r, w') \<Rightarrow>
     (undisturbed se \<and> r \<noteq> Inr () \<longrightarrow> \<not> isInitialized w' \<and> webContainerInstance w' = None)"
    using init_undisturbed[where e = se and projectId = projectId and w = w] assms
    by (simp add: case_prod_unfold)
  have order: "case initWebContainer se projectId w of (r, w') \<Rightarrow>
     (\<forall>projectInfo c. r = Inr () \<and> getItem se projectId = Inr projectInfo \<and> boot se = Inr c \<longrightarrow>
        drop (length (trace w)) (trace w') =
          [GetItem projectId, ConsoleLog ''projectInfo'', WebContainerBoot,
           ConsoleLog ''newWebContainerInstance''] @
          (case projectInfo of
             None \<Rightarrow> []
           | Some info \<Rightarrow>
               [JsonParse info, ConsoleLog ''projectFileData'',
                WriteDirByLocal (projr (parse se info)) (Some c)]) @
          (case curDirectory se of
             None \<Rightarrow> []
           | Some dir \<Rightarrow> [ConsoleLog ''curDirectory'', WriteDirByLocal dir (Some c)]) @
          [On c ''server-ready'', SetInstance (Some c) True] \<and>
        isInitialized w' \<and> webContainerInstance w' = Some c)"
    using assms
    by (simp add: store_simps split: sum.splits option.splits)
  from own alone order show ?thesis
    by (simp add: case_prod_unfold)
qed

text \<open>
  C7. On a store that holds no instance and is not marked initialized, a call of
  \<^verbatim>\<open>initWebContainer\<close> that completes has booted the container, then written the cached
  project files, when there are any, then the current directory, when there is one, then
  registered the listener of \<^verbatim>\<open>'server-ready'\<close>, and only then, as its last step, marked the
  store initialized, whatever runs during its awaits; a call that does not complete has
  not marked the store, which is left unmarked when nothing else runs meanwhile. In the
  panel, whatever runs during the awaits of \<^verbatim>\<open>init\<close>, the calls made before the spawn of the
  shell, or all its calls when the shell is never spawned, are the first of the calls that
  mount the terminal: nothing is wired and no command is run before the shell is
  spawned. With the modules loaded and the terminal mounted, and staying so, the shell is
  spawned before the streams are wired, and the calls of \<^verbatim>\<open>executeAutoCommands\<close> (with any
  terminal \<open>tm\<close>, from whatever state \<open>q\<close>) come after the wiring; when the spawn of the
  shell fails, nothing follows it.
\<close>

theorem lifecycle_order:
  "(\<not> isInitialized w \<and> webContainerInstance w = None \<longrightarrow>
      (fst (initWebContainer se projectId w) \<noteq> Inr () \<longrightarrow>
         instanceWrites (calls (initWebContainer se projectId) w) = [] \<and>
         (undisturbed se \<longrightarrow> \<not> isInitialized (snd (initWebContainer se projectId w)))) \<and>
      (\<forall>projectInfo c.
         fst (initWebContainer se projectId w) = Inr () \<and>
         getItem se projectId = Inr projectInfo \<and> boot se = Inr c \<longrightarrow>
         calls (initWebContainer se projectId) w =
           [GetItem projectId, ConsoleLog ''projectInfo'', WebContainerBoot,
            ConsoleLog ''newWebContainerInstance''] @
           (case projectInfo of
              None \<Rightarrow> []
            | Some info \<Rightarrow>
                [JsonParse info, ConsoleLog ''projectFileData'',
                 WriteDirByLocal (projr (parse se info)) (Some c)]) @
           (case curDirectory se of
              None \<Rightarrow> []
            | Some dir \<Rightarrow> [ConsoleLog ''curDirectory'', WriteDirByLocal dir (Some c)]) @
           [On c ''server-ready'', SetInstance (Some c) True] \<and>
         isInitialized (snd (initWebContainer se projectId w)))) \<and>
   take (length (beforeShell (calls (init e inst) p))) mountCalls =
     beforeShell (calls (init e inst) p) \<and>
   (modulesLoad e \<and> staysMounted e \<and> terminalRef p \<and> terminal p = None \<longrightarrow>
      (\<forall>sh. spawn e ''jsh'' [] (shellOptions e) = Inr sh \<longrightarrow>
         calls (init e (Some wc)) p =
           mountCalls @ [Spawn wc ''jsh'' [] (shellOptions e)] @ wiringCalls sh @
           calls (executeAutoCommands e wc (Some tm)) q) \<and>
      (\<forall>err. spawn e ''jsh'' [] (shellOptions e) = Inl err \<longrightarrow>
         calls (init e (Some wc)) p = mountCalls @ [Spawn wc ''jsh'' [] (shellOptions e)]))"
proof (intro conjI impI allI; (elim conjE)?)
  assume fresh: "\<not> isInitialized w" "webContainerInstance w = None"
  note store = init_fresh[OF fresh, where se = se and projectId = projectId]
  {
    assume "fst (initWebContainer se projectId w) \<noteq> Inr ()"
    with store show "instanceWrites (calls (initWebContainer se projectId) w) = []"
      by (simp add: case_prod_unfold calls_def)
  }
  {
    assume "fst (initWebContainer se projectId w) \<noteq> Inr ()" "undisturbed se"
    with store show "\<not> isInitialized (snd (initWebContainer se projectId w))"
      by (simp add: case_prod_unfold)
  }
  {
    fix projectInfo c
    assume "fst (initWebContainer se projectId w) = Inr ()"
      "getItem se projectId = Inr projectInfo" "boot se = Inr c"
    with store show "calls (initWebContainer se projectId) w =
           [GetItem projectId, ConsoleLog ''projectInfo'', WebContainerBoot,
            ConsoleLog ''newWebContainerInstance''] @
           (case projectInfo of
              None \<Rightarrow> []
            | Some info \<Rightarrow>
                [JsonParse info, ConsoleLog ''projectFileData'',
                 WriteDirByLocal (projr (parse se info)) (Some c)]) @
           (case curDirectory se of
              None \<Rightarrow> []
            | Some dir \<Rightarrow> [ConsoleLog ''curDirectory'', WriteDirByLocal dir (Some c)]) @
           [On c ''server-ready'', SetInstance (Some c) True]"
      and "isInitialized (snd (initWebContainer se projectId w))"
      by (simp_all add: case_prod_unfold calls_def)
  }
next
  show "take (length (beforeShell (calls (init e inst) p))) mountCalls =
     beforeShell (calls (init e inst) p)"
    by (rule init_order)
next
  fix sh
  assume "modulesLoad e" "staysMounted e" "terminalRef p" "terminal p = None"
    "spawn e ''jsh'' [] (shellOptions e) = Inr sh"
  then show "calls (init e (Some wc)) p =
           mountCalls @ [Spawn wc ''jsh'' [] (shellOptions e)] @ wiringCalls sh @
           calls (executeAutoCommands e wc (Some tm)) q"
    by (simp add: calls_def init_closed auto_simps)
next
  fix err
  assume "modulesLoad e" "staysMounted e" "terminalRef p" "terminal p = None"
    "spawn e ''jsh'' [] (shellOptions e) = Inl err"
  then show "calls (init e (Some wc)) p = mountCalls @ [Spawn wc ''jsh'' [] (shellOptions e)]"
    by (simp add: calls_def init_spawn_fails)
qed

theorem lifecycle_order_witness:
  "calls (initWebContainer cachedEnv ''p'') initialStore =
     [GetItem ''p'', ConsoleLog ''projectInfo'', WebContainerBoot,
      ConsoleLog ''newWebContainerInstance'', JsonParse ''cached'',
      ConsoleLog ''projectFileData'', WriteDirByLocal ''tree'' (Some 7),
      ConsoleLog ''curDirectory'', WriteDirByLocal ''dir'' (Some 7),
      On 7 ''server-ready'', SetInstance (Some 7) True] \<and>
   \<not> isInitialized (snd (initWebContainer offlineEnv ''p'' initialStore)) \<and>
   calls (init readyEnv (Some 0)) mountedPanel =
     mountCalls @ [Spawn 0 ''jsh'' [] (TerminalSize (Some 120) (Some 30))] @ wiringCalls 1 @
     calls (executeAutoCommands readyEnv 0 (Some \<lparr>cols = 120, rows = 30\<rparr>)) mountedPanel \<and>
   beforeShell (calls (init unmountEnv (Some 0)) mountedPanel) = mountCalls"
proof -
  have fresh: "\<not> isInitialized initialStore \<and> webContainerInstance initialStore = None"
    by (simp add: initialStore_def)
  have store: "fst (initWebContainer cachedEnv ''p'' initialStore) = Inr () \<and>
      getItem (cachedEnv :: world store_env) ''p'' = Inr (Some ''cached'') \<and>
      boot (cachedEnv :: world store_env) = Inr 7"
    by (simp add: store_simps cachedEnv_def initialStore_def)
  have thrown: "fst (initWebContainer offlineEnv ''p'' initialStore) \<noteq> Inr ()"
    by (simp add: store_simps offlineEnv_def quietEnv_def initialStore_def)
  have panel: "modulesLoad (readyEnv :: panel panel_env) \<and> staysMounted (readyEnv :: panel panel_env) \<and>
      terminalRef mountedPanel \<and> terminal mountedPanel = None"
    "spawn (readyEnv :: panel panel_env) ''jsh'' [] (shellOptions (readyEnv :: panel panel_env)) = Inr 1"
    by (simp_all add: modulesLoad_def staysMounted_def readyEnv_def mountedPanel_def)
  have options: "shellOptions (readyEnv :: panel panel_env) = TerminalSize (Some 120) (Some 30)"
    by (simp add: shellOptions_def fittedSize_def readyEnv_def)
  have files: "projr (parse (cachedEnv :: world store_env) ''cached'') = ''tree''"
    "curDirectory (cachedEnv :: world store_env) = Some ''dir''"
    by (simp_all add: cachedEnv_def)
  have spawned: "length (beforeShell (calls (init unmountEnv (Some 0)) mountedPanel)) = 13"
    by (simp add: init_def unmountEnv_def readyEnv_def mountedPanel_def cleanup_def setUrl_def
          fit_def refit_def run_simps executeAutoCommands_null emit_def modify_def ret_def
          calls_def beforeShell_def)
  note order = lifecycle_order[where w = initialStore and se = cachedEnv and projectId = "''p''"
      and e = readyEnv and inst = "Some 0" and p = mountedPanel and wc = 0 and q = mountedPanel
      and tm = "\<lparr>cols = 120, rows = 30\<rparr>"]
  note failed = lifecycle_order[where w = initialStore and se = offlineEnv and projectId = "''p''"
      and e = unmountEnv and inst = "Some 0" and p = mountedPanel and wc = 0 and q = mountedPanel
      and tm = "\<lparr>cols = 120, rows = 30\<rparr>"]
  from order fresh store
  have "calls (initWebContainer cachedEnv ''p'') initialStore =
      [GetItem ''p'', ConsoleLog ''projectInfo'', WebContainerBoot,
       ConsoleLog ''newWebContainerInstance''] @
      (case Some ''cached'' of
         None \<Rightarrow> []
       | Some info \<Rightarrow>
           [JsonParse info, ConsoleLog ''projectFileData'',
            WriteDirByLocal (projr (parse (cachedEnv :: world store_env) info)) (Some 7)]) @
      (case curDirectory (cachedEnv :: world store_env) of
         None \<Rightarrow> []
       | Some dir \<Rightarrow> [ConsoleLog ''curDirectory'', WriteDirByLocal dir (Some 7)]) @
      [On 7 ''server-ready'', SetInstance (Some 7) True]"
    by blast
  moreover from failed fresh thrown undisturbed_quietEnv(3)
  have "\<not> isInitialized (snd (initWebContainer offlineEnv ''p'' initialStore))"
    by blast
  moreover from order panel
  have "calls (init readyEnv (Some 0)) mountedPanel =
      mountCalls @ [Spawn 0 ''jsh'' [] (shellOptions (readyEnv :: panel panel_env))] @ wiringCalls 1 @
      calls (executeAutoCommands readyEnv 0 (Some \<lparr>cols = 120, rows = 30\<rparr>)) mountedPanel"
    by blast
  moreover from failed
  have "take (length (beforeShell (calls (init unmountEnv (Some 0)) mountedPanel))) mountCalls =
      beforeShell (calls (init unmountEnv (Some 0)) mountedPanel)"
    by blast
  then have "beforeShell (calls (init unmountEnv (Some 0)) mountedPanel) = mountCalls"
    unfolding spawned by (simp add: mountCalls_def)
  ultimately show ?thesis by (simp add: files options)
qed

end
